theory Spec2Isabelle
  imports Complex_Main "HOL-Library.AList" "HOL-Library.Multiset"
begin

section \<open>Conventions of the embedding\<close>

text \<open>
  The development embeds the self-production pipeline of Atlas
  (\<^verbatim>\<open>src/self-production/gap-analyzer.ts\<close> and \<^verbatim>\<open>src/self-production/integrator.ts\<close>).

  \<^item> A TypeScript \<^verbatim>\<open>number\<close> that holds a closure, a scope, a score or a threshold is a
    \<^typ>\<open>rat\<close>: the arithmetic of the source is exact on the values used here and no
    rounding of IEEE doubles is modelled.  Timestamps (milliseconds) and counters are
    \<^typ>\<open>int\<close> and \<^typ>\<open>nat\<close>.
  \<^item> A string is a \<^typ>\<open>string\<close>; case conversion is the ASCII one.
  \<^item> An optional field is an \<^typ>\<open>'a option\<close>.  JavaScript truthiness of an optional
    string (\<^verbatim>\<open>undefined\<close> and \<^verbatim>\<open>""\<close> are both falsy) is \<open>truthy\<close>.
  \<^item> \<^verbatim>\<open>Date.now()\<close> and \<^verbatim>\<open>new Date()\<close> are a parameter \<open>now\<close> of every operation that
    reads the clock; one operation reads one clock value.
  \<^item> A JavaScript \<^verbatim>\<open>Map\<close> is an association list in insertion order with distinct
    keys: \<^verbatim>\<open>get\<close> is \<^const>\<open>map_of\<close>, \<^verbatim>\<open>set\<close> is \<^const>\<open>AList.update\<close> (an existing key
    keeps its position, a new key goes last), \<^verbatim>\<open>delete\<close> is \<^const>\<open>AList.delete\<close>,
    \<^verbatim>\<open>values()\<close> is \<open>map snd\<close>.
  \<^item> A thrown \<^verbatim>\<open>Error\<close> is a value of type \<open>error\<close>; an operation that can throw returns
    \<open>error + 'a\<close> together with the state it leaves behind.
  \<^item> The platform is POSIX: \<^verbatim>\<open>path\<close> is \<^verbatim>\<open>path.posix\<close>, and the file system is a store of
    regular files and directories that every operation of \<^verbatim>\<open>fs\<close> reads or returns updated.
\<close>

subsection \<open>Strings and numbers of the runtime\<close>

definition truthy :: "string option \<Rightarrow> bool" where
  "truthy s = (case s of None \<Rightarrow> False | Some t \<Rightarrow> t \<noteq> [])"

definition digit_char :: "nat \<Rightarrow> char" where
  "digit_char d = ''0123456789'' ! d"

fun show_nat :: "nat \<Rightarrow> string" where
  "show_nat n = (if n < 10 then [digit_char n] else show_nat (n div 10) @ [digit_char (n mod 10)])"

declare show_nat.simps [simp del]

definition show_int :: "int \<Rightarrow> string" where
  "show_int i = (if i < 0 then CHR ''-'' # show_nat (nat (- i)) else show_nat (nat i))"

text \<open>\<^verbatim>\<open>a || b\<close> on an optional string: the first operand when it is truthy.\<close>

definition or_default :: "string option \<Rightarrow> string \<Rightarrow> string" where
  "or_default s d = (case s of None \<Rightarrow> d | Some t \<Rightarrow> if t = [] then d else t)"

text \<open>A template literal keeps its structure: the literal parts and interpolated
  strings are \<open>Str\<close>, an interpolated number is \<open>Num\<close>, and \<^verbatim>\<open>x.toFixed(2)\<close> is
  \<open>Fixed2 x\<close>.  How the runtime prints a number is not modelled.\<close>

datatype Piece = Str string | Num rat | Fixed2 rat

type_synonym Text = "Piece list"

section \<open>Data model\<close>

subsection \<open>Gaps (gap-analyzer.ts)\<close>

datatype GapType =
  domain_misfit | capability_missing | relation_pattern | stratum_boundary
  | source_coverage | axiom_tension | clustering_anomaly

text \<open>The four levels \<^verbatim>\<open>'low' | 'medium' | 'high' | 'critical'\<close> serve both as a gap's
  severity and as a review item's priority.\<close>

datatype Level = low | medium | high | critical

datatype ActionType =
  new_domain | new_capability | new_relation | new_connector | axiom_review | manual_review

datatype Stratum = MATTER | LIFE | SENTIENCE | LOGOS

text \<open>The values that the analyzer stores in a \<^verbatim>\<open>Record<string, any>\<close> parameter bag.\<close>

datatype Param = PNum rat | PStr string | PStrs "string list" | PStrata "Stratum list"

record GapEvidence =
  ev_entityId :: "string option"
  ev_entityName :: "string option"
  ev_metric :: string
  ev_value :: rat
  ev_threshold :: rat
  ev_context :: Text

record SuggestedAction =
  act_type :: ActionType
  act_description :: Text
  act_parameters :: "(string \<times> Param) list"
  act_confidence :: rat

record Gap =
  gap_id :: string
  gap_type :: GapType
  gap_severity :: Level
  gap_description :: Text
  gap_evidence :: "GapEvidence list"
  suggestedAction :: SuggestedAction
  detectedAt :: int

subsection \<open>Generated artifacts (code-generator section of integrator.ts)\<close>

datatype GenerationType = domain | capability | relation | connector | extractor | protocol

record InsertionPoint =
  ip_file :: string
  ip_after :: "string option"
  ip_before :: "string option"
  ip_replace :: "string option"
  ip_append :: "bool option"

datatype JustStatus = respected | not_applicable | needs_review

record JustItem =
  ji_id :: string
  ji_status :: JustStatus
  ji_explanation :: string

record AxiomJustification =
  just_axioms :: "JustItem list"
  overallCompliance :: rat

record GeneratedCode =
  gen_id :: string
  gen_type :: GenerationType
  gen_name :: string
  gen_description :: string
  gen_code :: string
  gen_targetFile :: string
  insertionPoint :: InsertionPoint
  dependencies :: "string list"
  axiomJustification :: AxiomJustification
  generatedAt :: int
  gen_sourceGap :: Gap

subsection \<open>Validation results (axis-validator section of integrator.ts)\<close>

datatype ViolationSeverity = sev_error | sev_fatal

record AxiomViolation =
  viol_axiomId :: string
  viol_axiomName :: string
  viol_description :: Text
  viol_severity :: ViolationSeverity
  viol_suggestedFix :: "string option"

record AxiomWarning =
  warn_axiomId :: string
  warn_axiomName :: string
  warn_description :: Text
  warn_requiresReview :: bool

record ValidationResult =
  valid :: bool
  score :: rat
  violations :: "AxiomViolation list"
  warnings :: "AxiomWarning list"
  passed :: "string list"
  requiresHumanReview :: bool
  reviewReasons :: "Text list"

subsection \<open>Review items (review-queue section of gap-analyzer.ts)\<close>

datatype ReviewStatus = pending | approved | rejected | modified | expired

datatype ReviewType = code_generation | gap_detection | axiom_tension_review

datatype Decision = approve_decision | reject_decision | modify_decision

record ReviewFeedback =
  fb_decision :: Decision
  fb_reason :: string
  fb_modifications :: "string option"
  fb_notes :: "string option"

record ReviewItem =
  item_id :: string
  item_type :: ReviewType
  status :: ReviewStatus
  sourceGap :: Gap
  generatedCode :: "GeneratedCode option"
  validation :: "ValidationResult option"
  createdAt :: int
  updatedAt :: int
  expiresAt :: int
  reviewer :: "string option"
  reviewedAt :: "int option"
  feedback :: "ReviewFeedback option"
  priority :: Level

record ReviewQueueConfig =
  expirationTime :: int
  maxPending :: int
  lowPriorityTimeout :: int

record ReviewQueue =
  rq_config :: ReviewQueueConfig
  items :: "(string \<times> ReviewItem) list"
  itemCounter :: nat

datatype error =
  ReviewItemNotFound string
  | ItemNotPending string
  | ItemNotApproved string
  | IntegrationNotFound string
  | CannotRollback string
  | ENOENT string
  | EISDIR string
  | ENOTDIR string
  | EEXIST string

section \<open>ReviewQueue\<close>

definition REVIEW_DEFAULT_CONFIG :: ReviewQueueConfig where
  "REVIEW_DEFAULT_CONFIG =
     \<lparr> expirationTime = 7 * 24 * 60 * 60 * 1000,
       maxPending = 100,
       lowPriorityTimeout = 30 * 24 * 60 * 60 * 1000 \<rparr>"

definition newReviewQueue :: "ReviewQueueConfig \<Rightarrow> ReviewQueue" where
  "newReviewQueue cfg = \<lparr> rq_config = cfg, items = [], itemCounter = 0 \<rparr>"

definition generateId :: "ReviewQueue \<Rightarrow> int \<Rightarrow> string \<times> ReviewQueue" where
  "generateId q now =
     (let c = itemCounter q + 1
      in (''review_'' @ show_int now @ ''_'' @ show_nat c, q\<lparr>itemCounter := c\<rparr>))"

definition determinePriority :: "Gap \<Rightarrow> ValidationResult \<Rightarrow> Level" where
  "determinePriority gap v =
     (if gap_type gap = axiom_tension then critical
      else if length (violations v) > 0 then high
      else if gap_severity gap = critical then critical
      else if gap_severity gap = high then high
      else if gap_severity gap = medium then medium
      else low)"

text \<open>\<^verbatim>\<open>expireOldItems\<close> walks the objects held by the map and updates each one in place.\<close>

definition expireItem :: "int \<Rightarrow> ReviewItem \<Rightarrow> ReviewItem" where
  "expireItem now it = it\<lparr>status := expired, updatedAt := now\<rparr>"

definition expireOldItems :: "ReviewQueue \<Rightarrow> int \<Rightarrow> ReviewQueue" where
  "expireOldItems q now =
     q\<lparr>items := map (\<lambda>(k, it).
          (k, if status it = pending \<and> expiresAt it < now then expireItem now it else it))
        (items q)\<rparr>"

text \<open>\<^verbatim>\<open>Array.prototype.sort\<close> with a comparator is a stable sort: an element is placed
  before the first element it does not compare greater than.\<close>

fun insort_by :: "('a \<Rightarrow> 'a \<Rightarrow> int) \<Rightarrow> 'a \<Rightarrow> 'a list \<Rightarrow> 'a list" where
  "insort_by c x [] = [x]"
| "insort_by c x (y # ys) = (if c x y \<le> 0 then x # y # ys else y # insort_by c x ys)"

definition sort_by :: "('a \<Rightarrow> 'a \<Rightarrow> int) \<Rightarrow> 'a list \<Rightarrow> 'a list" where
  "sort_by c xs = foldr (insort_by c) xs []"

definition priorityOrder :: "Level \<Rightarrow> int" where
  "priorityOrder p = (case p of critical \<Rightarrow> 0 | high \<Rightarrow> 1 | medium \<Rightarrow> 2 | low \<Rightarrow> 3)"

definition comparePending :: "ReviewItem \<Rightarrow> ReviewItem \<Rightarrow> int" where
  "comparePending a b =
     (let priorityDiff = priorityOrder (priority a) - priorityOrder (priority b)
      in if priorityDiff \<noteq> 0 then priorityDiff else createdAt a - createdAt b)"

definition listPending :: "ReviewQueue \<Rightarrow> int \<Rightarrow> ReviewItem list \<times> ReviewQueue" where
  "listPending q now =
     (let q' = expireOldItems q now
      in (sort_by comparePending (filter (\<lambda>it. status it = pending) (map snd (items q'))), q'))"

definition compareCreated :: "ReviewItem \<Rightarrow> ReviewItem \<Rightarrow> int" where
  "compareCreated a b = createdAt a - createdAt b"

text \<open>The loop of \<^verbatim>\<open>enforceMaxPending\<close>: \<open>toRemove\<close> counts down, the loop breaks at zero.\<close>

fun expireLoop :: "int \<Rightarrow> int \<Rightarrow> ReviewItem list \<Rightarrow> (string \<times> ReviewItem) list
    \<Rightarrow> (string \<times> ReviewItem) list" where
  "expireLoop now toRemove [] m = m"
| "expireLoop now toRemove (it # rest) m =
     (if toRemove \<le> 0 then m
      else expireLoop now (toRemove - 1) rest (AList.update (item_id it) (expireItem now it) m))"

definition enforceMaxPending :: "ReviewQueue \<Rightarrow> int \<Rightarrow> ReviewQueue" where
  "enforceMaxPending q now =
     (let (pend, q') = listPending q now
      in if int (length pend) > maxPending (rq_config q') then
           let lowPriority = sort_by compareCreated (filter (\<lambda>i. priority i = low) pend);
               toRemove = int (length pend) - maxPending (rq_config q')
           in q'\<lparr>items := expireLoop now toRemove lowPriority (items q')\<rparr>
         else q')"

text \<open>The \<^verbatim>\<open>add...\<close> methods return the object that they stored; when the capacity policy
  expires that very object the caller sees it expired, so the result is read back.\<close>

definition stored :: "ReviewQueue \<Rightarrow> ReviewItem \<Rightarrow> ReviewItem" where
  "stored q it = (case map_of (items q) (item_id it) of Some it' \<Rightarrow> it' | None \<Rightarrow> it)"

definition addCodeReview ::
  "ReviewQueue \<Rightarrow> int \<Rightarrow> Gap \<Rightarrow> GeneratedCode \<Rightarrow> ValidationResult \<Rightarrow> ReviewItem \<times> ReviewQueue" where
  "addCodeReview q now gap gen v =
     (let prio = determinePriority gap v;
          (i, q1) = generateId q now;
          item = \<lparr> item_id = i, item_type = code_generation, status = pending, sourceGap = gap,
                   generatedCode = Some gen, validation = Some v,
                   createdAt = now, updatedAt = now,
                   expiresAt = now + expirationTime (rq_config q),
                   reviewer = None, reviewedAt = None, feedback = None, priority = prio \<rparr>;
          q2 = q1\<lparr>items := AList.update i item (items q1)\<rparr>;
          q3 = enforceMaxPending q2 now
      in (stored q3 item, q3))"

definition addGapReview :: "ReviewQueue \<Rightarrow> int \<Rightarrow> Gap \<Rightarrow> ReviewItem \<times> ReviewQueue" where
  "addGapReview q now gap =
     (let (i, q1) = generateId q now;
          item = \<lparr> item_id = i, item_type = gap_detection, status = pending, sourceGap = gap,
                   generatedCode = None, validation = None,
                   createdAt = now, updatedAt = now,
                   expiresAt = now + expirationTime (rq_config q),
                   reviewer = None, reviewedAt = None, feedback = None,
                   priority = (if gap_severity gap = critical then critical
                               else if gap_severity gap = high then high else medium) \<rparr>;
          q2 = q1\<lparr>items := AList.update i item (items q1)\<rparr>;
          q3 = enforceMaxPending q2 now
      in (stored q3 item, q3))"

definition addAxiomReview :: "ReviewQueue \<Rightarrow> int \<Rightarrow> Gap \<Rightarrow> ReviewItem \<times> ReviewQueue" where
  "addAxiomReview q now gap =
     (let (i, q1) = generateId q now;
          item = \<lparr> item_id = i, item_type = axiom_tension_review, status = pending, sourceGap = gap,
                   generatedCode = None, validation = None,
                   createdAt = now, updatedAt = now,
                   expiresAt = now + expirationTime (rq_config q),
                   reviewer = None, reviewedAt = None, feedback = None,
                   priority = (if gap_severity gap = critical then critical else high) \<rparr>;
          q2 = q1\<lparr>items := AList.update i item (items q1)\<rparr>
      in (item, q2))"

definition get :: "ReviewQueue \<Rightarrow> string \<Rightarrow> ReviewItem option" where
  "get q i = map_of (items q) i"

definition approve ::
  "ReviewQueue \<Rightarrow> int \<Rightarrow> string \<Rightarrow> string \<Rightarrow> string option \<Rightarrow> (error + ReviewItem) \<times> ReviewQueue" where
  "approve q now i who nts =
     (case map_of (items q) i of
        None \<Rightarrow> (Inl (ReviewItemNotFound i), q)
      | Some item \<Rightarrow>
          if status item \<noteq> pending then (Inl (ItemNotPending i), q)
          else
            let item' = item\<lparr> status := approved, reviewer := Some who, reviewedAt := Some now,
                               updatedAt := now,
                               feedback := Some \<lparr> fb_decision = approve_decision,
                                                  fb_reason = or_default nts ''Approved without notes'',
                                                  fb_modifications = None, fb_notes = None \<rparr> \<rparr>
            in (Inr item', q\<lparr>items := AList.update i item' (items q)\<rparr>))"

definition reject ::
  "ReviewQueue \<Rightarrow> int \<Rightarrow> string \<Rightarrow> string \<Rightarrow> string \<Rightarrow> (error + ReviewItem) \<times> ReviewQueue" where
  "reject q now i who rsn =
     (case map_of (items q) i of
        None \<Rightarrow> (Inl (ReviewItemNotFound i), q)
      | Some item \<Rightarrow>
          if status item \<noteq> pending then (Inl (ItemNotPending i), q)
          else
            let item' = item\<lparr> status := rejected, reviewer := Some who, reviewedAt := Some now,
                               updatedAt := now,
                               feedback := Some \<lparr> fb_decision = reject_decision, fb_reason = rsn,
                                                  fb_modifications = None, fb_notes = None \<rparr> \<rparr>
            in (Inr item', q\<lparr>items := AList.update i item' (items q)\<rparr>))"

definition modifyAndApprove ::
  "ReviewQueue \<Rightarrow> int \<Rightarrow> string \<Rightarrow> string \<Rightarrow> string \<Rightarrow> string option
    \<Rightarrow> (error + ReviewItem) \<times> ReviewQueue" where
  "modifyAndApprove q now i who mods nts =
     (case map_of (items q) i of
        None \<Rightarrow> (Inl (ReviewItemNotFound i), q)
      | Some item \<Rightarrow>
          if status item \<noteq> pending then (Inl (ItemNotPending i), q)
          else
            let item1 = item\<lparr> status := modified, reviewer := Some who, reviewedAt := Some now,
                               updatedAt := now,
                               feedback := Some \<lparr> fb_decision = modify_decision,
                                                  fb_reason = or_default nts ''Modified before approval'',
                                                  fb_modifications = Some mods, fb_notes = None \<rparr> \<rparr>;
                item2 = (case generatedCode item1 of
                           Some g \<Rightarrow> item1\<lparr>generatedCode := Some (g\<lparr>gen_code := mods\<rparr>)\<rparr>
                         | None \<Rightarrow> item1)
            in (Inr item2, q\<lparr>items := AList.update i item2 (items q)\<rparr>))"

definition getApprovedForIntegration :: "ReviewQueue \<Rightarrow> ReviewItem list" where
  "getApprovedForIntegration q =
     filter (\<lambda>item. (status item = approved \<or> status item = modified) \<and> generatedCode item \<noteq> None)
       (map snd (items q))"

definition markIntegrated :: "ReviewQueue \<Rightarrow> string \<Rightarrow> ReviewQueue" where
  "markIntegrated q i = q\<lparr>items := AList.delete i (items q)\<rparr>"


section \<open>Integrator\<close>

subsection \<open>Strings, paths and files\<close>

definition nl :: string where
  "nl = [CHR 0x0A]"

fun starts_with :: "string \<Rightarrow> string \<Rightarrow> bool" where
  "starts_with s [] = True"
| "starts_with [] (p # ps) = False"
| "starts_with (c # cs) (p # ps) = (c = p \<and> starts_with cs ps)"

text \<open>\<^verbatim>\<open>s.indexOf(p)\<close>: \<open>None\<close> stands for \<open>-1\<close>.\<close>

fun indexOf :: "string \<Rightarrow> string \<Rightarrow> nat option" where
  "indexOf [] p = (if p = [] then Some 0 else None)"
| "indexOf (c # cs) p =
     (if starts_with (c # cs) p then Some 0 else map_option Suc (indexOf cs p))"

definition includes_str :: "string \<Rightarrow> string \<Rightarrow> bool" where
  "includes_str s p = (indexOf s p \<noteq> None)"

text \<open>The replacement text of \<^verbatim>\<open>String.prototype.replace\<close> with a string pattern: \<^verbatim>\<open>$$\<close> is a
  dollar sign, \<^verbatim>\<open>$&\<close> the matched text, \<^verbatim>\<open>$`\<close> and \<^verbatim>\<open>$'\<close> the text before and after the match;
  a string pattern has no capture groups, so every other \<^verbatim>\<open>$\<close> stands for itself.\<close>

fun getSubstitution :: "string \<Rightarrow> string \<Rightarrow> string \<Rightarrow> string \<Rightarrow> string" where
  "getSubstitution matched preceding following [] = []"
| "getSubstitution matched preceding following [c] = [c]"
| "getSubstitution matched preceding following (c # d # r) =
     (if c = CHR ''$'' \<and> d = CHR ''$'' then CHR ''$'' # getSubstitution matched preceding following r
      else if c = CHR ''$'' \<and> d = CHR ''&'' then matched @ getSubstitution matched preceding following r
      else if c = CHR ''$'' \<and> d = CHR 0x60 then preceding @ getSubstitution matched preceding following r
      else if c = CHR ''$'' \<and> d = CHR 0x27 then following @ getSubstitution matched preceding following r
      else c # getSubstitution matched preceding following (d # r))"

definition replace_first :: "string \<Rightarrow> string \<Rightarrow> string \<Rightarrow> string" where
  "replace_first content pat newText =
     (case indexOf content pat of
        None \<Rightarrow> content
      | Some k \<Rightarrow>
          take k content
          @ getSubstitution pat (take k content) (drop (k + length pat) content) newText
          @ drop (k + length pat) content)"

text \<open>\<^verbatim>\<open>xs.join(sep)\<close> and \<^verbatim>\<open>s.split(sep)\<close> for a separator of one character.\<close>

definition join :: "string \<Rightarrow> string list \<Rightarrow> string" where
  "join sep xs = (case xs of [] \<Rightarrow> [] | y # ys \<Rightarrow> y @ concat (map (\<lambda>z. sep @ z) ys))"

fun split_on :: "char \<Rightarrow> string \<Rightarrow> string list" where
  "split_on sep [] = [[]]"
| "split_on sep (c # cs) =
     (if c = sep then [] # split_on sep cs
      else (case split_on sep cs of [] \<Rightarrow> [[c]] | s # ss \<Rightarrow> (c # s) # ss))"

subsection \<open>Paths\<close>

text \<open>The functions of Node's \<^verbatim>\<open>path\<close> module on a POSIX system.  \<^verbatim>\<open>normalizeString\<close> walks
  the segments between separators and keeps the segments of the result: an empty segment and
  \<^verbatim>\<open>.\<close> are dropped, \<^verbatim>\<open>..\<close> removes the last segment unless there is none or it is \<^verbatim>\<open>..\<close>
  itself, in which case it is kept when the path is relative.\<close>

definition normalizeStep :: "bool \<Rightarrow> string list \<Rightarrow> string \<Rightarrow> string list" where
  "normalizeStep allowAboveRoot res seg =
     (if seg = [] \<or> seg = ''.'' then res
      else if seg = ''..'' then
        (if res \<noteq> [] \<and> last res \<noteq> ''..'' then butlast res
         else if allowAboveRoot then res @ [''..'']
         else res)
      else res @ [seg])"

definition normalizeString :: "string \<Rightarrow> bool \<Rightarrow> string" where
  "normalizeString path allowAboveRoot =
     join ''/'' (foldl (normalizeStep allowAboveRoot) [] (split_on CHR ''/'' path))"

definition path_normalize :: "string \<Rightarrow> string" where
  "path_normalize path =
     (if path = [] then ''.''
      else (let isAbsolute = (hd path = CHR ''/'');
                trailingSeparator = (last path = CHR ''/'');
                p = normalizeString path (\<not> isAbsolute)
            in if p = [] then (if isAbsolute then ''/'' else if trailingSeparator then ''./'' else ''.'')
               else (if isAbsolute then ''/'' else []) @ p @ (if trailingSeparator then ''/'' else [])))"

text \<open>\<^verbatim>\<open>path.join(a, b)\<close>: the arguments that are not empty, joined by a separator and
  normalised.\<close>

definition path_join :: "string \<Rightarrow> string \<Rightarrow> string" where
  "path_join a b =
     (if a = [] \<and> b = [] then ''.''
      else path_normalize (if a = [] then b else if b = [] then a else a @ ''/'' @ b))"

text \<open>\<^verbatim>\<open>path.basename(p)\<close>: the last segment, trailing separators ignored.\<close>

definition path_basename :: "string \<Rightarrow> string" where
  "path_basename p =
     rev (takeWhile (\<lambda>c. c \<noteq> CHR ''/'') (dropWhile (\<lambda>c. c = CHR ''/'') (rev p)))"

text \<open>\<^verbatim>\<open>path.dirname(p)\<close>: the path up to the separator before the last segment; the scan
  from the end does not look at the first character.\<close>

definition path_dirname :: "string \<Rightarrow> string" where
  "path_dirname p =
     (if p = [] then ''.''
      else (let hasRoot = (hd p = CHR ''/'');
                r = dropWhile (\<lambda>c. c \<noteq> CHR ''/'') (dropWhile (\<lambda>c. c = CHR ''/'') (rev (tl p)));
                end = length r
            in if r = [] then (if hasRoot then ''/'' else ''.'')
               else if hasRoot \<and> end = 1 then ''//''
               else take end p))"

subsection \<open>The file system\<close>

text \<open>A node of the file system is a regular file with its content or a directory.  The
  store maps the resolved form of a path (normalised, without a trailing separator) to the
  node there; the operating system's resolution of a path is the lexical one of
  \<^verbatim>\<open>path.normalize\<close>.  The working directory, the root and the directories above the working
  directory always exist.  A path with a trailing separator names a directory only.

  Every path that the integrator passes to \<^verbatim>\<open>fs\<close> is a result of \<^verbatim>\<open>path.join\<close> or
  \<^verbatim>\<open>path.dirname\<close>.  Symbolic links, permissions, the identity of a relative and an absolute
  path of the same file, and a store in which a file lies below something that is not a
  directory are outside the model.\<close>

datatype node = File string | Dir

type_synonym fs = "string \<rightharpoonup> node"

definition fs_key :: "string \<Rightarrow> string" where
  "fs_key p =
     (let q = path_normalize p in if 1 < length q \<and> last q = CHR ''/'' then butlast q else q)"

definition implicit_dir :: "string \<Rightarrow> bool" where
  "implicit_dir k = (k = ''.'' \<or> k = ''/'' \<or> list_all (\<lambda>s. s = ''..'') (split_on CHR ''/'' k))"

definition node_at :: "fs \<Rightarrow> string \<Rightarrow> node option" where
  "node_at files k = (if implicit_dir k then Some Dir else files k)"

text \<open>What \<^verbatim>\<open>fs.statSync\<close> finds at a path; \<open>None\<close> when it throws.\<close>

definition stat :: "fs \<Rightarrow> string \<Rightarrow> node option" where
  "stat files p =
     (if p = [] then None
      else case node_at files (fs_key p) of
             None \<Rightarrow> None
           | Some Dir \<Rightarrow> Some Dir
           | Some (File c) \<Rightarrow> if last p = CHR ''/'' then None else Some (File c))"

definition existsSync :: "fs \<Rightarrow> string \<Rightarrow> bool" where
  "existsSync files p = (stat files p \<noteq> None)"

definition readFileSync :: "fs \<Rightarrow> string \<Rightarrow> error + string" where
  "readFileSync files p =
     (case stat files p of
        Some (File c) \<Rightarrow> Inr c
      | Some Dir \<Rightarrow> Inl (EISDIR p)
      | None \<Rightarrow> Inl (if p \<noteq> [] \<and> node_at files (fs_key p) \<noteq> None then ENOTDIR p else ENOENT p))"

text \<open>Writing replaces the content of a regular file, or creates the file when the directory
  that is to hold it exists.\<close>

definition writeFileSync :: "fs \<Rightarrow> string \<Rightarrow> string \<Rightarrow> error + fs" where
  "writeFileSync files p c =
     (if p = [] then Inl (ENOENT p)
      else (let k = fs_key p
            in case node_at files k of
                 Some Dir \<Rightarrow> Inl (EISDIR p)
               | Some (File old) \<Rightarrow>
                   if last p = CHR ''/'' then Inl (ENOTDIR p) else Inr (files(k \<mapsto> File c))
               | None \<Rightarrow>
                   (case node_at files (path_dirname k) of
                      None \<Rightarrow> Inl (ENOENT p)
                    | Some (File x) \<Rightarrow> Inl (ENOTDIR p)
                    | Some Dir \<Rightarrow>
                        if last p = CHR ''/'' then Inl (EISDIR p) else Inr (files(k \<mapsto> File c)))))"

text \<open>Copying reads the source and writes the destination; a file copied onto itself is left
  as it is.\<close>

definition copyFileSync :: "fs \<Rightarrow> string \<Rightarrow> string \<Rightarrow> error + fs" where
  "copyFileSync files src dst =
     (case readFileSync files src of
        Inl e \<Rightarrow> Inl e
      | Inr c \<Rightarrow> writeFileSync files dst c)"

text \<open>\<^verbatim>\<open>fs.mkdirSync(p, { recursive: true })\<close> creates the directory and those above it that
  are missing, from the top.\<close>

fun dir_prefixes :: "string \<Rightarrow> string \<Rightarrow> string list" where
  "dir_prefixes pre [] = (if pre = [] then [] else [pre])"
| "dir_prefixes pre (c # cs) =
     (if c = CHR ''/'' \<and> pre \<noteq> [] then pre # dir_prefixes (pre @ [c]) cs
      else dir_prefixes (pre @ [c]) cs)"

fun mkdirLoop :: "string \<Rightarrow> fs \<Rightarrow> string list \<Rightarrow> error + fs" where
  "mkdirLoop p files [] = Inr files"
| "mkdirLoop p files (k # ks) =
     (case node_at files k of
        Some Dir \<Rightarrow> mkdirLoop p files ks
      | Some (File c) \<Rightarrow> Inl (if ks = [] then EEXIST p else ENOTDIR p)
      | None \<Rightarrow> mkdirLoop p (files(k \<mapsto> Dir)) ks)"

definition mkdirSync :: "fs \<Rightarrow> string \<Rightarrow> error + fs" where
  "mkdirSync files p =
     (if p = [] then Inl (ENOENT p) else mkdirLoop p files (dir_prefixes [] (fs_key p)))"

subsection \<open>Records of the integrator\<close>

datatype IntegrationAction = created | modified_file | failed

datatype ResultError = NoGeneratedCode | Thrown error

record IntegrationResult =
  res_success :: bool
  res_itemId :: string
  res_generatedCodeId :: string
  res_targetFile :: string
  res_action :: IntegrationAction
  res_error :: "ResultError option"
  res_backup :: "string option"
  res_timestamp :: int

record IntegrationHistoryEntry =
  hist_id :: string
  hist_reviewItemId :: string
  hist_generatedCodeId :: string
  hist_type :: GenerationType
  hist_name :: string
  hist_targetFile :: string
  integratedAt :: int
  integratedBy :: string
  gitCommit :: "string option"
  canRollback :: bool
  backupPath :: "string option"

record IntegratorConfig =
  baseDir :: string
  createBackups :: bool
  backupDir :: string
  dryRun :: bool

record Integrator =
  int_config :: IntegratorConfig
  history :: "IntegrationHistoryEntry list"

subsection \<open>Operations of the integrator\<close>

text \<open>The constructor keeps the configuration and starts with an empty history; with backups
  enabled it first creates the backup directory when that does not exist.  \<open>newIntegrator\<close> is
  the object and \<open>Integrator_init\<close> the effect on the file system; when the latter throws, no
  integrator is constructed.\<close>

definition newIntegrator :: "IntegratorConfig \<Rightarrow> Integrator" where
  "newIntegrator cfg = \<lparr> int_config = cfg, history = [] \<rparr>"

definition Integrator_init :: "IntegratorConfig \<Rightarrow> fs \<Rightarrow> error + fs" where
  "Integrator_init cfg files =
     (if createBackups cfg then
        (let backupPath = path_join (baseDir cfg) (backupDir cfg)
         in if \<not> existsSync files backupPath then mkdirSync files backupPath else Inr files)
      else Inr files)"

definition applyInsertion :: "string \<Rightarrow> string \<Rightarrow> InsertionPoint \<Rightarrow> string" where
  "applyInsertion content newCode insertion =
     (if ip_append insertion = Some True then content @ nl @ newCode
      else if truthy (ip_replace insertion) then
        replace_first content (the (ip_replace insertion)) newCode
      else if truthy (ip_after insertion) then
        (let marker = the (ip_after insertion)
         in case indexOf content marker of
              None \<Rightarrow> content @ nl @ nl @ ''// AUTO-GENERATED CODE BELOW'' @ nl @ newCode
            | Some afterIndex \<Rightarrow>
                (let insertAt = afterIndex + length marker
                 in take insertAt content @ nl @ newCode @ drop insertAt content))
      else if truthy (ip_before insertion) then
        (let marker = the (ip_before insertion)
         in case indexOf content marker of
              None \<Rightarrow> newCode @ nl @ nl @ content
            | Some beforeIndex \<Rightarrow> take beforeIndex content @ newCode @ nl @ drop beforeIndex content)
      else content @ nl @ newCode)"

text \<open>\<open>isoDate\<close> is the text of \<^verbatim>\<open>new Date().toISOString()\<close>.\<close>

definition wrapNewFile :: "GeneratedCode \<Rightarrow> string \<Rightarrow> string" where
  "wrapNewFile generated isoDate =
     ''/**'' @ nl @ '' * '' @ gen_name generated @ nl @ '' *'' @ nl
     @ '' * '' @ gen_description generated @ nl @ '' *'' @ nl
     @ '' * @generated by Atlas Self-Production Engine'' @ nl
     @ '' * @date '' @ isoDate @ nl
     @ '' * @source gap: '' @ gap_id (gen_sourceGap generated) @ nl
     @ '' */'' @ nl @ nl
     @ gen_code generated"

definition applyCode ::
  "Integrator \<Rightarrow> fs \<Rightarrow> string \<Rightarrow> GeneratedCode \<Rightarrow> (error + IntegrationAction) \<times> fs" where
  "applyCode I files isoDate generated =
     (let targetPath = path_join (baseDir (int_config I)) (gen_targetFile generated);
          insertion = insertionPoint generated
      in if dryRun (int_config I) then
           (Inr (if existsSync files targetPath then modified_file else created), files)
         else if \<not> existsSync files targetPath then
           (let dir = path_dirname targetPath
            in case (if \<not> existsSync files dir then mkdirSync files dir else Inr files) of
                 Inl e \<Rightarrow> (Inl e, files)
               | Inr files1 \<Rightarrow>
                   (case writeFileSync files1 targetPath (wrapNewFile generated isoDate) of
                      Inl e \<Rightarrow> (Inl e, files1)
                    | Inr files2 \<Rightarrow> (Inr created, files2)))
         else
           (case readFileSync files targetPath of
              Inl e \<Rightarrow> (Inl e, files)
            | Inr content \<Rightarrow>
                (case writeFileSync files targetPath
                        (applyInsertion content (gen_code generated) insertion) of
                   Inl e \<Rightarrow> (Inl e, files)
                 | Inr files' \<Rightarrow> (Inr modified_file, files'))))"

definition createBackup ::
  "Integrator \<Rightarrow> fs \<Rightarrow> int \<Rightarrow> string \<Rightarrow> string \<Rightarrow> (error + string) \<times> fs" where
  "createBackup I files now filePath generatedId =
     (let dir = path_join (baseDir (int_config I)) (backupDir (int_config I));
          fileName = path_basename filePath;
          backupName = fileName @ ''.'' @ show_int now @ ''.'' @ generatedId @ ''.bak'';
          backupPath = path_join dir backupName
      in case copyFileSync files filePath backupPath of
           Inl e \<Rightarrow> (Inl e, files)
         | Inr files' \<Rightarrow> (Inr backupPath, files'))"

definition failedResult :: "ReviewItem \<Rightarrow> GeneratedCode \<Rightarrow> error \<Rightarrow> int \<Rightarrow> IntegrationResult" where
  "failedResult reviewItem generated e now =
     \<lparr> res_success = False, res_itemId = item_id reviewItem,
       res_generatedCodeId = gen_id generated, res_targetFile = gen_targetFile generated,
       res_action = failed, res_error = Some (Thrown e), res_backup = None,
       res_timestamp = now \<rparr>"

definition integrate ::
  "Integrator \<Rightarrow> fs \<Rightarrow> int \<Rightarrow> string \<Rightarrow> ReviewItem \<Rightarrow> IntegrationResult \<times> Integrator \<times> fs" where
  "integrate I files now isoDate reviewItem =
     (case generatedCode reviewItem of
        None \<Rightarrow>
          (\<lparr> res_success = False, res_itemId = item_id reviewItem, res_generatedCodeId = [],
             res_targetFile = [], res_action = failed, res_error = Some NoGeneratedCode,
             res_backup = None, res_timestamp = now \<rparr>, I, files)
      | Some generated \<Rightarrow>
          (let targetPath = path_join (baseDir (int_config I)) (gen_targetFile generated);
               (backupRes, files1) =
                 (if createBackups (int_config I) \<and> existsSync files targetPath
                  then (case createBackup I files now targetPath (gen_id generated) of
                          (Inl e, f) \<Rightarrow> (Inl e, f)
                        | (Inr b, f) \<Rightarrow> (Inr (Some b), f))
                  else (Inr None, files))
           in case backupRes of
                Inl e \<Rightarrow> (failedResult reviewItem generated e now, I, files1)
              | Inr bkp \<Rightarrow>
                  (case applyCode I files1 isoDate generated of
                     (Inl e, files2) \<Rightarrow> (failedResult reviewItem generated e now, I, files2)
                   | (Inr action, files2) \<Rightarrow>
                       (let historyEntry =
                              \<lparr> hist_id = ''int_'' @ show_int now,
                                hist_reviewItemId = item_id reviewItem,
                                hist_generatedCodeId = gen_id generated,
                                hist_type = gen_type generated,
                                hist_name = gen_name generated,
                                hist_targetFile = gen_targetFile generated,
                                integratedAt = now,
                                integratedBy = or_default (reviewer reviewItem) ''system'',
                                gitCommit = None,
                                canRollback = truthy bkp,
                                backupPath = bkp \<rparr>
                        in (\<lparr> res_success = True, res_itemId = item_id reviewItem,
                               res_generatedCodeId = gen_id generated,
                               res_targetFile = gen_targetFile generated,
                               res_action = action, res_error = None, res_backup = bkp,
                               res_timestamp = now \<rparr>,
                            I\<lparr>history := history I @ [historyEntry]\<rparr>, files2)))))"

text \<open>\<^verbatim>\<open>rollback\<close> changes the entry that \<^verbatim>\<open>history.find\<close> returned: the first one with the id.\<close>

fun markRolledBack :: "string \<Rightarrow> IntegrationHistoryEntry list \<Rightarrow> IntegrationHistoryEntry list" where
  "markRolledBack i [] = []"
| "markRolledBack i (h # hs) =
     (if hist_id h = i then h\<lparr>canRollback := False\<rparr> # hs else h # markRolledBack i hs)"

definition rollback ::
  "Integrator \<Rightarrow> fs \<Rightarrow> string \<Rightarrow> (error + bool) \<times> Integrator \<times> fs" where
  "rollback I files integrationId =
     (case find (\<lambda>h. hist_id h = integrationId) (history I) of
        None \<Rightarrow> (Inl (IntegrationNotFound integrationId), I, files)
      | Some entry \<Rightarrow>
          if \<not> canRollback entry \<or> \<not> truthy (backupPath entry) then
            (Inl (CannotRollback integrationId), I, files)
          else
            (let targetPath = path_join (baseDir (int_config I)) (hist_targetFile entry)
             in if dryRun (int_config I) then (Inr True, I, files)
                else
                  (case copyFileSync files (the (backupPath entry)) targetPath of
                     Inl e \<Rightarrow> (Inl e, I, files)
                   | Inr files' \<Rightarrow>
                       (Inr True, I\<lparr>history := markRolledBack integrationId (history I)\<rparr>, files'))))"

text \<open>The path that \<^verbatim>\<open>integrate\<close> and \<^verbatim>\<open>rollback\<close> write to, and the path at which
  \<^verbatim>\<open>createBackup\<close> stores the copy of a target file.\<close>

definition targetPathOf :: "Integrator \<Rightarrow> string \<Rightarrow> string" where
  "targetPathOf I f = path_join (baseDir (int_config I)) f"

definition backupPathOf :: "Integrator \<Rightarrow> int \<Rightarrow> string \<Rightarrow> string \<Rightarrow> string" where
  "backupPathOf I now f generatedId =
     path_join (path_join (baseDir (int_config I)) (backupDir (int_config I)))
       (path_basename (targetPathOf I f) @ ''.'' @ show_int now @ ''.'' @ generatedId @ ''.bak'')"

text \<open>The record that \<^verbatim>\<open>integrate\<close> pushes onto the history when it succeeds with the backup
  path \<open>bkp\<close>.\<close>

definition historyEntryOf ::
  "ReviewItem \<Rightarrow> GeneratedCode \<Rightarrow> int \<Rightarrow> string option \<Rightarrow> IntegrationHistoryEntry" where
  "historyEntryOf it g now bkp =
     \<lparr> hist_id = ''int_'' @ show_int now, hist_reviewItemId = item_id it,
       hist_generatedCodeId = gen_id g, hist_type = gen_type g, hist_name = gen_name g,
       hist_targetFile = gen_targetFile g, integratedAt = now,
       integratedBy = or_default (reviewer it) ''system'', gitCommit = None,
       canRollback = truthy bkp, backupPath = bkp \<rparr>"

section \<open>AxisValidator\<close>

subsection \<open>The frozen axiom table\<close>

record Axiom =
  ax_id :: string
  ax_name :: string
  ax_statement :: string
  checkable :: bool
  criticalFor :: "GenerationType list"

text \<open>Characters outside ASCII in a literal are written as their UTF-8 bytes.\<close>

definition AXIOMS :: "Axiom list" where
  "AXIOMS =
    [ \<lparr> ax_id = ''A1'', ax_name = ''Entity Axiom'',
        ax_statement = ''An entity is a difference that maintains itself and makes a difference.'',
        checkable = False, criticalFor = [domain] \<rparr>,
      \<lparr> ax_id = ''A2'', ax_name = ''Configuration Axiom'',
        ax_statement = ''Every entity E has a configuration Config(E) = { C, S, ''
                       @ [CHR 0xCE, CHR 0xA3] @ '', K, R, U }'',
        checkable = True, criticalFor = [domain, capability] \<rparr>,
      \<lparr> ax_id = ''A3'', ax_name = ''Closure-Scope Trade-off'',
        ax_statement = ''High Closure (C) and high Scope (S) create tension.'',
        checkable = True, criticalFor = [domain] \<rparr>,
      \<lparr> ax_id = ''A4'', ax_name = ''Stratal Nesting'',
        ax_statement = ''Higher strata presuppose and include lower strata: LOGOS ''
                       @ [CHR 0xE2, CHR 0x8A, CHR 0x83] @ '' SENTIENCE ''
                       @ [CHR 0xE2, CHR 0x8A, CHR 0x83] @ '' LIFE ''
                       @ [CHR 0xE2, CHR 0x8A, CHR 0x83] @ '' MATTER'',
        checkable = True, criticalFor = [capability, domain] \<rparr>,
      \<lparr> ax_id = ''A5'', ax_name = ''Capability Emergence'',
        ax_statement = ''Each stratum enables new capabilities. Capabilities are cumulative.'',
        checkable = True, criticalFor = [capability] \<rparr>,
      \<lparr> ax_id = ''A6'', ax_name = ''Geometric Completeness'',
        ax_statement = ''Any entity can be fully characterized through the six geometries.'',
        checkable = False, criticalFor = [] \<rparr>,
      \<lparr> ax_id = ''A7'', ax_name = ''Observer Entanglement'',
        ax_statement = ''Characterization depends on observer perspective.'',
        checkable = False, criticalFor = [] \<rparr>,
      \<lparr> ax_id = ''A8'', ax_name = ''Boundary Constructivism'',
        ax_statement = ''Boundaries are drawn, not found.'',
        checkable = False, criticalFor = [domain] \<rparr>,
      \<lparr> ax_id = ''A9'', ax_name = ''Temporal Identity'',
        ax_statement = ''Entity identity persists through change via continuity of organization.'',
        checkable = False, criticalFor = [] \<rparr>,
      \<lparr> ax_id = ''A10'', ax_name = ''Minimal Characterization'',
        ax_statement = ''Prefer simpler characterizations over complex ones.'',
        checkable = True, criticalFor = [domain, capability, relation] \<rparr> ]"

subsection \<open>The regular expressions of the checks\<close>

definition sq :: string where "sq = [CHR 0x27]"
definition dq :: string where "dq = [CHR 0x22]"

definition is_space :: "char \<Rightarrow> bool" where
  "is_space c = (c \<in> set [CHR 0x09, CHR 0x0A, CHR 0x0B, CHR 0x0C, CHR 0x0D, CHR 0x20, CHR 0xA0])"

definition is_digit :: "char \<Rightarrow> bool" where
  "is_digit c = (c \<in> set ''0123456789'')"

definition is_word :: "char \<Rightarrow> bool" where
  "is_word c = (c \<in> set ''abcdefghijklmnopqrstuvwxyzABCDEFGHIJKLMNOPQRSTUVWXYZ0123456789_'')"

definition is_quote :: "char \<Rightarrow> bool" where
  "is_quote c = (c = CHR 0x27 \<or> c = CHR 0x22)"

definition toLowerCase :: "string \<Rightarrow> string" where
  "toLowerCase s =
     map (\<lambda>c. case map_of (zip ''ABCDEFGHIJKLMNOPQRSTUVWXYZ'' ''abcdefghijklmnopqrstuvwxyz'') c of
                 Some l \<Rightarrow> l | None \<Rightarrow> c) s"

definition toUpperCase :: "string \<Rightarrow> string" where
  "toUpperCase s =
     map (\<lambda>c. case map_of (zip ''abcdefghijklmnopqrstuvwxyz'' ''ABCDEFGHIJKLMNOPQRSTUVWXYZ'') c of
                 Some u \<Rightarrow> u | None \<Rightarrow> c) s"

text \<open>An unanchored regular expression matches at the leftmost position where it can.\<close>

fun search :: "(string \<Rightarrow> 'a option) \<Rightarrow> string \<Rightarrow> 'a option" where
  "search m [] = m []"
| "search m (c # cs) = (case m (c # cs) of Some r \<Rightarrow> Some r | None \<Rightarrow> search m cs)"

text \<open>\<^verbatim>\<open>/KEY:\s*([\d.]+)/\<close>, the capture group.\<close>

definition match_number :: "string \<Rightarrow> string \<Rightarrow> string option" where
  "match_number key =
     search (\<lambda>s. if starts_with s (key @ '':'') then
                    (let cap = takeWhile (\<lambda>c. is_digit c \<or> c = CHR ''.'')
                                 (dropWhile is_space (drop (length key + 1) s))
                     in if cap = [] then None else Some cap)
                  else None)"

text \<open>\<^verbatim>\<open>/KEY:\s*['"](\w+)['"]/\<close>, the capture group.\<close>

definition match_quoted :: "string \<Rightarrow> string \<Rightarrow> string option" where
  "match_quoted key =
     search (\<lambda>s. if starts_with s (key @ '':'') then
                    (case dropWhile is_space (drop (length key + 1) s) of
                       [] \<Rightarrow> None
                     | q # r \<Rightarrow>
                         (let w = takeWhile is_word r
                          in case drop (length w) r of
                               [] \<Rightarrow> None
                             | q' # _ \<Rightarrow> if is_quote q \<and> w \<noteq> [] \<and> is_quote q' then Some w else None))
                  else None)"

text \<open>\<^verbatim>\<open>/KEY:\s*\[(.*?)\]/s\<close>, the capture group.\<close>

definition match_bracket :: "string \<Rightarrow> string \<Rightarrow> string option" where
  "match_bracket key =
     search (\<lambda>s. if starts_with s (key @ '':'') then
                    (case dropWhile is_space (drop (length key + 1) s) of
                       [] \<Rightarrow> None
                     | b # r \<Rightarrow>
                         if b = CHR ''['' \<and> CHR '']'' \<in> set r
                         then Some (takeWhile (\<lambda>c. c \<noteq> CHR '']'') r) else None)
                  else None)"

text \<open>\<^verbatim>\<open>s.match(/'(\w+)'/g)\<close> with the quotes removed from every match.\<close>

function quoted_words :: "string \<Rightarrow> string list" where
  "quoted_words [] = []"
| "quoted_words (c # cs) =
     (let w = takeWhile is_word cs; r = drop (length w) cs
      in if c = CHR 0x27 \<and> w \<noteq> [] \<and> r \<noteq> [] \<and> hd r = CHR 0x27
         then w # quoted_words (tl r) else quoted_words cs)"
  by pat_completeness auto
termination
  by (relation "measure length") (auto simp: Let_def)

declare quoted_words.simps [simp del]

text \<open>\<^verbatim>\<open>parseFloat\<close> on a text of digits and dots; \<open>None\<close> is \<^verbatim>\<open>NaN\<close>.\<close>

definition digits_val :: "string \<Rightarrow> nat" where
  "digits_val ds = foldl (\<lambda>a d. 10 * a + (of_char d - 48)) 0 ds"

definition parseFloat :: "string \<Rightarrow> rat option" where
  "parseFloat s =
     (let ip = takeWhile is_digit s
      in case drop (length ip) s of
           [] \<Rightarrow> if ip = [] then None else Some (of_nat (digits_val ip))
         | c # r \<Rightarrow>
             if c = CHR ''.'' then
               (let fp = takeWhile is_digit r
                in if ip = [] \<and> fp = [] then None
                   else Some (of_nat (digits_val ip) + of_nat (digits_val fp) / 10 ^ length fp))
             else if ip = [] then None else Some (of_nat (digits_val ip)))"

text \<open>The Dice coefficient of the bigrams; \<open>None\<close> is \<^verbatim>\<open>NaN\<close> (both texts shorter than two).\<close>

fun getBigrams :: "string \<Rightarrow> string list" where
  "getBigrams (a # b # r) = [a, b] # getBigrams (b # r)"
| "getBigrams r = []"

definition stringSimilarity :: "string \<Rightarrow> string \<Rightarrow> rat option" where
  "stringSimilarity a b =
     (let aBigrams = getBigrams (toLowerCase a);
          bBigrams = getBigrams (toLowerCase b);
          intersection = filter (\<lambda>x. x \<in> set bBigrams) aBigrams
      in if length aBigrams + length bBigrams = 0 then None
         else Some (of_nat (2 * length intersection) / of_nat (length aBigrams + length bBigrams)))"

definition gt_num :: "rat option \<Rightarrow> rat \<Rightarrow> bool" where
  "gt_num x y = (case x of None \<Rightarrow> False | Some v \<Rightarrow> v > y)"

subsection \<open>The checks\<close>

record CheckResult =
  violated :: bool
  warning :: bool
  reason :: Text
  fatal :: bool
  cr_requiresReview :: bool
  cr_suggestedFix :: "string option"

definition check_ok :: "string \<Rightarrow> CheckResult" where
  "check_ok r = \<lparr> violated = False, warning = False, reason = [Str r], fatal = False,
                  cr_requiresReview = False, cr_suggestedFix = None \<rparr>"

definition checkA2Configuration :: "GeneratedCode \<Rightarrow> CheckResult" where
  "checkA2Configuration generated =
     (if gen_type generated = domain \<and>
         (\<not> includes_str (gen_code generated) ''typicalClosure''
          \<or> \<not> includes_str (gen_code generated) ''typicalScope'')
      then \<lparr> violated = True, warning = False,
             reason = [Str ''Domain must specify typicalClosure and typicalScope (A2: Config requirement)''],
             fatal = False, cr_requiresReview = False,
             cr_suggestedFix = Some ''Add typicalClosure: number and typicalScope: number to domain definition'' \<rparr>
      else check_ok ''Config requirements satisfied'')"

definition checkA3ClosureScope :: "GeneratedCode \<Rightarrow> CheckResult" where
  "checkA3ClosureScope generated =
     (let ok = check_ok ''Closure-Scope relationship is reasonable''
      in if gen_type generated = domain then
           (case (match_number ''typicalClosure'' (gen_code generated),
                  match_number ''typicalScope'' (gen_code generated)) of
              (Some cm, Some sm) \<Rightarrow>
                (let c = parseFloat cm; s = parseFloat sm
                 in if gt_num c (7/10) \<and> gt_num s (7/10) then
                      \<lparr> violated = False, warning = True,
                        reason = [Str ''Domain has both high closure ('', Num (the c),
                                  Str '') and high scope ('', Num (the s),
                                  Str ''). This creates A3 tension. Verify this is intentional.''],
                        fatal = False, cr_requiresReview = True, cr_suggestedFix = None \<rparr>
                    else ok)
            | _ \<Rightarrow> ok)
         else ok)"

definition validStrata :: "string list" where
  "validStrata = [''MATTER'', ''LIFE'', ''SENTIENCE'', ''LOGOS'']"

text \<open>\<^verbatim>\<open>xs.indexOf(x)\<close> on an array, \<open>-1\<close> when absent.\<close>

fun index_of :: "'a list \<Rightarrow> 'a \<Rightarrow> int" where
  "index_of [] x = -1"
| "index_of (y # ys) x = (if y = x then 0 else (let k = index_of ys x in if k < 0 then -1 else k + 1))"

definition getRequiredCapabilitiesForStratum :: "int \<Rightarrow> string list" where
  "getRequiredCapabilitiesForStratum stratumIndex =
     (if stratumIndex = 1 then [''PERSIST'']
      else if stratumIndex = 2 then [''PERSIST'', ''SELF_PRODUCE'']
      else if stratumIndex = 3 then [''PERSIST'', ''SELF_PRODUCE'', ''FEEL'', ''EVALUATE'']
      else [])"

definition checkA4_capability :: "GeneratedCode \<Rightarrow> CheckResult option" where
  "checkA4_capability generated =
     (case match_quoted ''emergentFrom'' (gen_code generated) of
        None \<Rightarrow> None
      | Some stratum \<Rightarrow>
          if stratum \<notin> set validStrata then
            Some \<lparr> violated = True, warning = False,
                   reason = [Str (''Invalid stratum '' @ dq @ stratum @ dq @ ''. Must be one of: ''
                                  @ join '', '' validStrata)],
                   fatal = True, cr_requiresReview = False,
                   cr_suggestedFix = Some (''Use a valid stratum: '' @ join '', '' validStrata) \<rparr>
          else
            (case match_bracket ''requires'' (gen_code generated) of
               None \<Rightarrow> None
             | Some listed \<Rightarrow>
                 (case find (\<lambda>required. \<not> includes_str listed required)
                         (getRequiredCapabilitiesForStratum (index_of validStrata stratum)) of
                    None \<Rightarrow> None
                  | Some required \<Rightarrow>
                      Some \<lparr> violated = False, warning = True,
                             reason = [Str (''Capability at '' @ stratum @ '' stratum should require ''
                                            @ required @ '' (lower stratum capability)'')],
                             fatal = False, cr_requiresReview = True, cr_suggestedFix = None \<rparr>)))"

definition highestIndex :: "string list \<Rightarrow> int" where
  "highestIndex strata =
     foldl (\<lambda>highestIdx s. let idx = index_of validStrata s in if idx > highestIdx then idx else highestIdx)
       (-1) strata"

definition checkA4_domain :: "GeneratedCode \<Rightarrow> CheckResult option" where
  "checkA4_domain generated =
     (case match_bracket ''compatibleStrata'' (gen_code generated) of
        None \<Rightarrow> None
      | Some listed \<Rightarrow>
          (let strata = quoted_words listed;
               highestIdx = highestIndex strata
           in case find (\<lambda>i. validStrata ! i \<notin> set strata) [0 ..< nat (highestIdx + 1)] of
                None \<Rightarrow> None
              | Some i \<Rightarrow>
                  Some \<lparr> violated = True, warning = False,
                         reason = [Str (''Domain compatible with '' @ validStrata ! nat highestIdx
                                        @ '' must also include '' @ validStrata ! i
                                        @ '' (A4: Stratal Nesting)'')],
                         fatal = True, cr_requiresReview = False,
                         cr_suggestedFix = Some (''Add '' @ sq @ validStrata ! i @ sq
                                                 @ '' to compatibleStrata'') \<rparr>))"

definition checkA4StratalNesting :: "GeneratedCode \<Rightarrow> CheckResult" where
  "checkA4StratalNesting generated =
     (case (if gen_type generated = capability then checkA4_capability generated else None) of
        Some r \<Rightarrow> r
      | None \<Rightarrow>
          (case (if gen_type generated = domain then checkA4_domain generated else None) of
             Some r \<Rightarrow> r
           | None \<Rightarrow> check_ok ''Stratal nesting respected''))"

definition existingCapabilities :: "string list" where
  "existingCapabilities = [''PERSIST'', ''SELF_PRODUCE'', ''FEEL'', ''EVALUATE'', ''REPRESENT'', ''NORM'']"

definition checkA5CapabilityEmergence :: "GeneratedCode \<Rightarrow> CheckResult" where
  "checkA5CapabilityEmergence generated =
     (let ok = check_ok ''Capability emergence rules satisfied''
      in if gen_type generated = capability then
           (if \<not> includes_str (gen_code generated) ''emergentFrom'' then
              \<lparr> violated = True, warning = False,
                reason = [Str ''Capability must specify emergentFrom stratum (A5: Capability Emergence)''],
                fatal = True, cr_requiresReview = False,
                cr_suggestedFix = Some (''Add emergentFrom: '' @ sq @ ''STRATUM'' @ sq
                                        @ '' to capability definition'') \<rparr>
            else
              (case match_quoted ''name'' (gen_code generated) of
                 None \<Rightarrow> ok
               | Some nm \<Rightarrow>
                   if toUpperCase nm \<in> set existingCapabilities then
                     \<lparr> violated = True, warning = False,
                       reason = [Str (''Capability '' @ dq @ nm @ dq @ '' already exists. Cannot duplicate.'')],
                       fatal = True, cr_requiresReview = False, cr_suggestedFix = None \<rparr>
                   else ok))
         else ok)"

definition existingDomains :: "string list" where
  "existingDomains = [''INERT'', ''LIVING'', ''SENTIENT'', ''SYMBOLIC'', ''COLLECTIVE'', ''IDEAL'',
                      ''EPHEMERAL'', ''ARTIFICIAL'']"

definition checkA10_domain :: "GeneratedCode \<Rightarrow> CheckResult option" where
  "checkA10_domain generated =
     (case match_quoted ''name'' (gen_code generated) of
        None \<Rightarrow> None
      | Some nm \<Rightarrow>
          (let name = toUpperCase nm
           in case find (\<lambda>existing. gt_num (stringSimilarity name existing) (7/10)) existingDomains of
                None \<Rightarrow> None
              | Some existing \<Rightarrow>
                  Some \<lparr> violated = False, warning = True,
                         reason = [Str (''Domain '' @ dq @ name @ dq @ '' is similar to existing domain ''
                                        @ dq @ existing @ dq @ ''. Verify it'' @ sq
                                        @ ''s not reducible (A10: Minimal Characterization)'')],
                         fatal = False, cr_requiresReview = True, cr_suggestedFix = None \<rparr>))"

definition checkA10MinimalCharacterization :: "GeneratedCode \<Rightarrow> CheckResult" where
  "checkA10MinimalCharacterization generated =
     (case (if gen_type generated = domain then checkA10_domain generated else None) of
        Some r \<Rightarrow> r
      | None \<Rightarrow>
          if gen_type generated = capability \<and>
             (includes_str (gen_code generated) '' and '' \<or> includes_str (gen_code generated) '' or '')
          then \<lparr> violated = False, warning = True,
                 reason = [Str ''Capability description suggests it might be composite. Consider if it can be decomposed (A10)''],
                 fatal = False, cr_requiresReview = True, cr_suggestedFix = None \<rparr>
          else check_ok ''Minimal characterization principle respected'')"

definition checkAxiom :: "Axiom \<Rightarrow> GeneratedCode \<Rightarrow> CheckResult" where
  "checkAxiom axiom generated =
     (if ax_id axiom = ''A2'' then checkA2Configuration generated
      else if ax_id axiom = ''A3'' then checkA3ClosureScope generated
      else if ax_id axiom = ''A4'' then checkA4StratalNesting generated
      else if ax_id axiom = ''A5'' then checkA5CapabilityEmergence generated
      else if ax_id axiom = ''A10'' then checkA10MinimalCharacterization generated
      else \<lparr> violated = False, warning = \<not> checkable axiom,
             reason = [Str (if checkable axiom then ''Passed''
                            else ax_name axiom @ '' requires human judgment'')],
             fatal = False,
             cr_requiresReview = (\<not> checkable axiom \<and> gen_type generated \<in> set (criticalFor axiom)),
             cr_suggestedFix = None \<rparr>)"

definition validateJustification :: "AxiomJustification \<Rightarrow> AxiomWarning list" where
  "validateJustification justification =
     (if overallCompliance justification < 7/10 then
        [\<lparr> warn_axiomId = ''META'', warn_axiomName = ''Self-Assessment'',
           warn_description = [Str (''Generator'' @ sq @ ''s self-assessed compliance is low (''),
                               Fixed2 (overallCompliance justification),
                               Str ''). Extra scrutiny recommended.''],
           warn_requiresReview = True \<rparr>]
      else [])
     @ map (\<lambda>item. \<lparr> warn_axiomId = ji_id item,
                      warn_axiomName = ''Self-flagged: '' @ ji_id item,
                      warn_description = [Str (ji_explanation item)],
                      warn_requiresReview = True \<rparr>)
         (filter (\<lambda>a. ji_status a = needs_review) (just_axioms justification))"

subsection \<open>validate\<close>

text \<open>The loop over the relevant axioms fills the four arrays of \<^verbatim>\<open>validate\<close>.\<close>

record Tally =
  t_violations :: "AxiomViolation list"
  t_warnings :: "AxiomWarning list"
  t_passed :: "string list"
  t_reviewReasons :: "Text list"

fun checkLoop :: "Axiom list \<Rightarrow> GeneratedCode \<Rightarrow> Tally \<Rightarrow> Tally" where
  "checkLoop [] generated t = t"
| "checkLoop (axiom # rest) generated t =
     (let result = checkAxiom axiom generated
      in checkLoop rest generated
           (if violated result then
              t\<lparr>t_violations := t_violations t @
                   [\<lparr> viol_axiomId = ax_id axiom, viol_axiomName = ax_name axiom,
                      viol_description = reason result,
                      viol_severity = (if fatal result then sev_fatal else sev_error),
                      viol_suggestedFix = cr_suggestedFix result \<rparr>]\<rparr>
            else if warning result then
              t\<lparr>t_warnings := t_warnings t @
                   [\<lparr> warn_axiomId = ax_id axiom, warn_axiomName = ax_name axiom,
                      warn_description = reason result,
                      warn_requiresReview = cr_requiresReview result \<rparr>],
                t_reviewReasons := t_reviewReasons t @
                   (if cr_requiresReview result then [Str (ax_id axiom @ '': '') # reason result] else [])\<rparr>
            else t\<lparr>t_passed := t_passed t @ [ax_id axiom]\<rparr>))"

definition relevantAxioms :: "GeneratedCode \<Rightarrow> Axiom list" where
  "relevantAxioms generated =
     filter (\<lambda>a. gen_type generated \<in> set (criticalFor a) \<or> length (criticalFor a) = 0) AXIOMS"

definition validate :: "GeneratedCode \<Rightarrow> ValidationResult" where
  "validate generated =
     (let t = checkLoop (relevantAxioms generated) generated
                \<lparr> t_violations = [], t_warnings = [], t_passed = [], t_reviewReasons = [] \<rparr>;
          justificationIssues = validateJustification (axiomJustification generated);
          allWarnings = t_warnings t @ justificationIssues;
          totalChecks = length (relevantAxioms generated);
          passedChecks = length (t_passed t);
          warningPenalty = of_nat (length (filter warn_requiresReview allWarnings)) * (1/10);
          sc = max 0 (of_nat passedChecks / of_nat totalChecks - warningPenalty)
      in \<lparr> valid = (length (t_violations t) = 0),
           score = sc,
           violations = t_violations t,
           warnings = allWarnings,
           passed = t_passed t,
           requiresHumanReview =
             (length (t_reviewReasons t) > 0 \<or> (\<exists>v \<in> set (t_violations t). viol_severity v = sev_error)),
           reviewReasons = t_reviewReasons t \<rparr>)"

section \<open>CodeGenerator: the inference helpers\<close>

text \<open>\<^verbatim>\<open>keywords.some(k => lower.includes(k))\<close>\<close>

definition some_included :: "string list \<Rightarrow> string \<Rightarrow> bool" where
  "some_included keywords lower = (\<exists>k \<in> set keywords. includes_str lower k)"

definition clamp_score :: "rat \<Rightarrow> rat" where
  "clamp_score sc = max (1/10) (min (9/10) sc)"

fun closureLoop :: "string list \<Rightarrow> rat \<Rightarrow> rat" where
  "closureLoop [] sc = sc"
| "closureLoop (ch # rest) sc =
     (let lower = toLowerCase ch;
          sc1 = (if some_included [''autonomous'', ''independent'', ''self-'', ''closed''] lower
                 then sc + 1/10 else sc);
          sc2 = (if some_included [''dependent'', ''open'', ''connected'', ''reliant''] lower
                 then sc1 - 1/10 else sc1)
      in closureLoop rest sc2)"

definition inferTypicalClosure :: "string list \<Rightarrow> rat" where
  "inferTypicalClosure characteristics = clamp_score (closureLoop characteristics (1/2))"

fun scopeLoop :: "string list \<Rightarrow> rat \<Rightarrow> rat" where
  "scopeLoop [] sc = sc"
| "scopeLoop (ch # rest) sc =
     (let lower = toLowerCase ch;
          sc1 = (if some_included [''universal'', ''global'', ''extensive'', ''wide''] lower
                 then sc + 1/10 else sc);
          sc2 = (if some_included [''local'', ''specific'', ''limited'', ''narrow''] lower
                 then sc1 - 1/10 else sc1)
      in scopeLoop rest sc2)"

definition inferTypicalScope :: "string list \<Rightarrow> rat" where
  "inferTypicalScope characteristics = clamp_score (scopeLoop characteristics (1/2))"

text \<open>\<^verbatim>\<open>[...new Set(xs)]\<close> keeps the first occurrence of every element, in order.\<close>

fun uniq :: "'a list \<Rightarrow> 'a list \<Rightarrow> 'a list" where
  "uniq seen [] = []"
| "uniq seen (x # xs) = (if x \<in> set seen then uniq seen xs else x # uniq (x # seen) xs)"

definition inferCompatibleStrata :: "string list \<Rightarrow> Stratum list" where
  "inferCompatibleStrata characteristics =
     (let charString = toLowerCase (join '' '' characteristics);
          strata0 = [MATTER];
          strata1 = (if includes_str charString ''living'' \<or> includes_str charString ''biological''
                        \<or> includes_str charString ''metabol''
                     then strata0 @ [LIFE] else strata0);
          strata2 = (if includes_str charString ''sentient'' \<or> includes_str charString ''conscious''
                        \<or> includes_str charString ''feel''
                     then strata1 @ [LIFE, SENTIENCE] else strata1);
          strata3 = (if includes_str charString ''symbolic'' \<or> includes_str charString ''language''
                        \<or> includes_str charString ''norm''
                     then strata2 @ [LIFE, SENTIENCE, LOGOS] else strata2)
      in uniq [] strata3)"

definition inferRequiredCapabilities :: "Stratum \<Rightarrow> string list" where
  "inferRequiredCapabilities emergentFrom =
     (case emergentFrom of
        MATTER \<Rightarrow> []
      | LIFE \<Rightarrow> [''PERSIST'']
      | SENTIENCE \<Rightarrow> [''PERSIST'', ''SELF_PRODUCE'']
      | LOGOS \<Rightarrow> [''PERSIST'', ''SELF_PRODUCE'', ''FEEL'', ''EVALUATE''])"

section \<open>GapAnalyzer\<close>

subsection \<open>Entities (core types)\<close>

datatype Domain = INERT | LIVING | SENTIENT | SYMBOLIC | COLLECTIVE | IDEAL | EPHEMERAL | ARTIFICIAL

datatype Capability = PERSIST | SELF_PRODUCE | FEEL | EVALUATE | REPRESENT | NORM

record StrataSet =
  has_MATTER :: bool
  has_LIFE :: bool
  has_SENTIENCE :: bool
  has_LOGOS :: bool

record EntityRelation =
  targetId :: string
  rel_type :: string
  strength :: rat

text \<open>The fields of an entity that the pipeline does not read (description, modes, metadata)
  are left out.\<close>

record EntityConfiguration =
  closure :: rat
  scope :: rat
  strata :: StrataSet
  capabilities :: "Capability list"
  relations :: "EntityRelation list"
  uncertainty :: rat

record Entity =
  ent_id :: string
  ent_name :: string
  ent_config :: EntityConfiguration
  ent_domain :: Domain

record GapAnalyzerConfig =
  confidenceThreshold :: rat
  domainMinClusterSize :: int
  domainMisfitThreshold :: rat
  relationMinOccurrences :: int

definition GAP_DEFAULT_CONFIG :: GapAnalyzerConfig where
  "GAP_DEFAULT_CONFIG =
     \<lparr> confidenceThreshold = 7/10, domainMinClusterSize = 5,
       domainMisfitThreshold = 4/10, relationMinOccurrences = 3 \<rparr>"

record GapAnalyzer =
  ga_config :: GapAnalyzerConfig
  ga_gapCounter :: nat

definition newGapAnalyzer :: "GapAnalyzerConfig \<Rightarrow> GapAnalyzer" where
  "newGapAnalyzer cfg = \<lparr> ga_config = cfg, ga_gapCounter = 0 \<rparr>"

subsection \<open>Domain fit\<close>

text \<open>The table \<^verbatim>\<open>domainCharacteristics\<close>: typical closure and typical scope of a domain.  The
  lookup of the source can come back empty, which the model keeps as \<open>None\<close>.\<close>

definition domainCharacteristics :: "Domain \<Rightarrow> (rat \<times> rat) option" where
  "domainCharacteristics d =
     (case d of
        INERT \<Rightarrow> Some (3/10, 2/10)
      | LIVING \<Rightarrow> Some (7/10, 4/10)
      | SENTIENT \<Rightarrow> Some (8/10, 5/10)
      | SYMBOLIC \<Rightarrow> Some (5/10, 7/10)
      | COLLECTIVE \<Rightarrow> Some (6/10, 8/10)
      | IDEAL \<Rightarrow> Some (2/10, 9/10)
      | EPHEMERAL \<Rightarrow> Some (4/10, 3/10)
      | ARTIFICIAL \<Rightarrow> Some (5/10, 6/10))"

definition calculateDomainFitScore :: "Entity \<Rightarrow> rat" where
  "calculateDomainFitScore entity =
     (case domainCharacteristics (ent_domain entity) of
        None \<Rightarrow> 1/2
      | Some (typicalClosure, typicalScope) \<Rightarrow>
          (let closureDiff = \<bar>closure (ent_config entity) - typicalClosure\<bar>;
               scopeDiff = \<bar>scope (ent_config entity) - typicalScope\<bar>
           in 1 - (closureDiff + scopeDiff) / 2))"

text \<open>The first loop of \<^verbatim>\<open>analyzeDomainMisfits\<close> collects the entities that are flagged as
  misfits; the clustering that follows works on this list only.\<close>

fun misfitLoop :: "GapAnalyzerConfig \<Rightarrow> Entity list \<Rightarrow> Entity list \<Rightarrow> Entity list" where
  "misfitLoop cfg [] misfits = misfits"
| "misfitLoop cfg (entity # rest) misfits =
     (let fitScore = calculateDomainFitScore entity
      in misfitLoop cfg rest
           (if fitScore < domainMisfitThreshold cfg then misfits @ [entity] else misfits))"

definition findMisfits :: "GapAnalyzerConfig \<Rightarrow> Entity list \<Rightarrow> Entity list" where
  "findMisfits cfg entities = misfitLoop cfg entities []"

subsection \<open>Strata\<close>

definition stratum_name :: "Stratum \<Rightarrow> string" where
  "stratum_name s = (case s of MATTER \<Rightarrow> ''MATTER'' | LIFE \<Rightarrow> ''LIFE''
                      | SENTIENCE \<Rightarrow> ''SENTIENCE'' | LOGOS \<Rightarrow> ''LOGOS'')"

definition strata_order :: "Stratum list" where
  "strata_order = [MATTER, LIFE, SENTIENCE, LOGOS]"

definition getActiveStrata :: "Entity \<Rightarrow> Stratum list" where
  "getActiveStrata entity =
     (let s = strata (ent_config entity)
      in (if has_MATTER s then [MATTER] else [])
         @ (if has_LIFE s then [LIFE] else [])
         @ (if has_SENTIENCE s then [SENTIENCE] else [])
         @ (if has_LOGOS s then [LOGOS] else []))"

text \<open>The loop of \<^verbatim>\<open>respectsStratalNesting\<close> with its two flags; \<^verbatim>\<open>return false\<close> leaves it.\<close>

fun nestingLoop :: "Stratum list \<Rightarrow> Stratum list \<Rightarrow> bool \<Rightarrow> bool \<Rightarrow> bool" where
  "nestingLoop [] present foundGap sawHigher = True"
| "nestingLoop (s # rest) present foundGap sawHigher =
     (if s \<in> set present then
        (if foundGap then False else nestingLoop rest present foundGap True)
      else if sawHigher then nestingLoop rest present True sawHigher
      else nestingLoop rest present foundGap sawHigher)"

definition respectsStratalNesting :: "Stratum list \<Rightarrow> bool" where
  "respectsStratalNesting present = nestingLoop strata_order present False False"

text \<open>\<^verbatim>\<open>Math.max\<close> of no arguments is \<open>-\<infinity>\<close>, so for an empty list the loop of
  \<^verbatim>\<open>getMissingStrata\<close> does not run.\<close>

definition getMissingStrata :: "Stratum list \<Rightarrow> Stratum list" where
  "getMissingStrata present =
     (case present of
        [] \<Rightarrow> []
      | s # rest \<Rightarrow>
          (let highestIdx = foldl max (index_of strata_order s) (map (index_of strata_order) rest)
           in filter (\<lambda>x. x \<notin> set present) (take (nat (highestIdx + 1)) strata_order)))"

definition hasUnusualStratumCombination :: "Stratum list \<Rightarrow> bool" where
  "hasUnusualStratumCombination present =
     ((LOGOS \<in> set present \<and> SENTIENCE \<notin> set present)
      \<or> (SENTIENCE \<in> set present \<and> LIFE \<notin> set present)
      \<or> (LIFE \<in> set present \<and> MATTER \<notin> set present))"

subsection \<open>Axiom tensions\<close>

definition generateGapId :: "int \<Rightarrow> nat \<Rightarrow> string \<times> nat" where
  "generateGapId now gapCounter =
     (''gap_'' @ show_int now @ ''_'' @ show_nat (gapCounter + 1), gapCounter + 1)"

definition a3_tension_gap :: "string \<Rightarrow> int \<Rightarrow> Entity \<Rightarrow> Gap" where
  "a3_tension_gap gid now entity =
     \<lparr> gap_id = gid, gap_type = axiom_tension, gap_severity = low,
       gap_description =
         [Str (''Entity '' @ dq @ ent_name entity @ dq @ '' has both high closure (''),
          Fixed2 (closure (ent_config entity)), Str '') and high scope ('',
          Fixed2 (scope (ent_config entity)), Str ''), creating A3 tension''],
       gap_evidence =
         [\<lparr> ev_entityId = Some (ent_id entity), ev_entityName = Some (ent_name entity),
            ev_metric = ''closure_scope_product'',
            ev_value = closure (ent_config entity) * scope (ent_config entity),
            ev_threshold = 64/100,
            ev_context = [Str ''High closure + high scope is unusual (A3)''] \<rparr>],
       suggestedAction =
         \<lparr> act_type = manual_review,
           act_description = [Str ''Verify if entity truly has both high autonomy and broad relevance''],
           act_parameters = [(''closure'', PNum (closure (ent_config entity))),
                             (''scope'', PNum (scope (ent_config entity)))],
           act_confidence = 6/10 \<rparr>,
       detectedAt = now \<rparr>"

definition a4_nesting_gap :: "string \<Rightarrow> int \<Rightarrow> Entity \<Rightarrow> Gap" where
  "a4_nesting_gap gid now entity =
     (let activeStrata = getActiveStrata entity
      in \<lparr> gap_id = gid, gap_type = axiom_tension, gap_severity = critical,
           gap_description =
             [Str (''Entity '' @ dq @ ent_name entity @ dq @ '' may violate A4 (stratal nesting): has ''
                   @ join '', '' (map stratum_name activeStrata)
                   @ '' but missing required lower strata'')],
           gap_evidence =
             [\<lparr> ev_entityId = Some (ent_id entity), ev_entityName = Some (ent_name entity),
                ev_metric = ''stratal_nesting'', ev_value = 0, ev_threshold = 1,
                ev_context = [Str (''Strata: '' @ join ([CHR 0x20, CHR 0xE2, CHR 0x86, CHR 0x92, CHR 0x20])
                                                     (map stratum_name activeStrata))] \<rparr>],
           suggestedAction =
             \<lparr> act_type = axiom_review,
               act_description = [Str ''Stratal nesting violation - needs immediate review''],
               act_parameters = [(''currentStrata'', PStrata activeStrata),
                                 (''missingStrata'', PStrata (getMissingStrata activeStrata))],
               act_confidence = 95/100 \<rparr>,
           detectedAt = now \<rparr>)"

text \<open>The body of the loop of \<^verbatim>\<open>analyzeAxiomTensions\<close> for one entity; the analyzer's
  \<open>gapCounter\<close> is threaded through.  The \<^verbatim>\<open>continue\<close> for an entity of the domain \<open>IDEAL\<close>
  ends the whole iteration, the nesting check included.\<close>

definition tensionStep :: "int \<Rightarrow> Entity \<Rightarrow> Gap list \<Rightarrow> nat \<Rightarrow> Gap list \<times> nat" where
  "tensionStep now entity gaps gapCounter =
     (if ent_domain entity = IDEAL then (gaps, gapCounter)
      else
        (let (gaps1, c1) =
               (if closure (ent_config entity) > 8/10 \<and> scope (ent_config entity) > 8/10
                then (let (gid, c) = generateGapId now gapCounter
                      in (gaps @ [a3_tension_gap gid now entity], c))
                else (gaps, gapCounter))
         in if \<not> respectsStratalNesting (getActiveStrata entity)
            then (let (gid, c) = generateGapId now c1
                  in (gaps1 @ [a4_nesting_gap gid now entity], c))
            else (gaps1, c1)))"

fun tensionLoop :: "int \<Rightarrow> Entity list \<Rightarrow> Gap list \<Rightarrow> nat \<Rightarrow> Gap list \<times> nat" where
  "tensionLoop now [] gaps gapCounter = (gaps, gapCounter)"
| "tensionLoop now (entity # rest) gaps gapCounter =
     (case tensionStep now entity gaps gapCounter of
        (gaps', gapCounter') \<Rightarrow> tensionLoop now rest gaps' gapCounter')"

definition analyzeAxiomTensions :: "int \<Rightarrow> Entity list \<Rightarrow> nat \<Rightarrow> Gap list \<times> nat" where
  "analyzeAxiomTensions now entities gapCounter = tensionLoop now entities [] gapCounter"

section \<open>SelfProductionEngine\<close>

text \<open>The engine owns an analyzer, a review queue and an integrator; its constructor gives the
  analyzer and the queue their default configuration and constructs the integrator from the
  base directory and the dry-run flag, with the integrator's defaults for the rest (the effect
  of that on the file system is \<open>Integrator_init\<close>).  \<^verbatim>\<open>runCycle\<close>, which drives the analyzer,
  the generator and the validator, is not part of this development.\<close>

record SelfProductionConfig =
  enableGeneration :: bool
  requireApproval :: bool
  minValidationScore :: rat
  maxPendingReviews :: int
  eng_baseDir :: string
  eng_dryRun :: bool

record SelfProductionEngine =
  eng_config :: SelfProductionConfig
  gapAnalyzer :: GapAnalyzer
  reviewQueue :: ReviewQueue
  integrator :: Integrator

definition newSelfProductionEngine :: "SelfProductionConfig \<Rightarrow> SelfProductionEngine" where
  "newSelfProductionEngine cfg =
     \<lparr> eng_config = cfg,
       gapAnalyzer = newGapAnalyzer GAP_DEFAULT_CONFIG,
       reviewQueue = newReviewQueue REVIEW_DEFAULT_CONFIG,
       integrator = newIntegrator \<lparr> baseDir = eng_baseDir cfg, createBackups = True,
                                    backupDir = ''.atlas-backups'', dryRun = eng_dryRun cfg \<rparr> \<rparr>"

definition integrateApproved ::
  "SelfProductionEngine \<Rightarrow> fs \<Rightarrow> int \<Rightarrow> string \<Rightarrow> string
    \<Rightarrow> (error + IntegrationResult) \<times> SelfProductionEngine \<times> fs" where
  "integrateApproved E files now isoDate reviewId =
     (case get (reviewQueue E) reviewId of
        None \<Rightarrow> (Inl (ReviewItemNotFound reviewId), E, files)
      | Some item \<Rightarrow>
          if status item \<noteq> approved \<and> status item \<noteq> modified then
            (Inl (ItemNotApproved reviewId), E, files)
          else
            (let (result, I', files') = integrate (integrator E) files now isoDate item;
                 q' = (if res_success result then markIntegrated (reviewQueue E) reviewId
                       else reviewQueue E)
             in (Inr result, E\<lparr>reviewQueue := q', integrator := I'\<rparr>, files')))"

definition engine_rollback ::
  "SelfProductionEngine \<Rightarrow> fs \<Rightarrow> string \<Rightarrow> (error + bool) \<times> SelfProductionEngine \<times> fs" where
  "engine_rollback E files integrationId =
     (let (r, I', files') = rollback (integrator E) files integrationId
      in (r, E\<lparr>integrator := I'\<rparr>, files'))"

section \<open>Concrete inputs\<close>

text \<open>The inputs at which the theorems below are instantiated and the operations are run.\<close>

definition ex_gap :: Gap where
  "ex_gap =
     \<lparr> gap_id = ''gap_1_1'', gap_type = relation_pattern, gap_severity = low,
       gap_description = [Str ''Relation type orbits used 3 times but not in standard vocabulary''],
       gap_evidence = [],
       suggestedAction = \<lparr> act_type = new_relation, act_description = [Str ''Formalize relation type orbits''],
                           act_parameters = [(''name'', PStr ''orbits'')], act_confidence = 66/100 \<rparr>,
       detectedAt = 1 \<rparr>"

definition ex_code :: GeneratedCode where
  "ex_code =
     \<lparr> gen_id = ''gen_relation_1_1'', gen_type = relation, gen_name = ''orbits'',
       gen_description = ''New relation type'',
       gen_code = ''export const RELATION_ORBITS = 1;'',
       gen_targetFile = ''relations.ts'',
       insertionPoint = \<lparr> ip_file = ''relations.ts'', ip_after = Some ''// BELOW'',
                          ip_before = None, ip_replace = None, ip_append = None \<rparr>,
       dependencies = [],
       axiomJustification = \<lparr> just_axioms = [\<lparr> ji_id = ''A10'', ji_status = needs_review,
                                                ji_explanation = ''Verify relation is not reducible'' \<rparr>],
                              overallCompliance = 85/100 \<rparr>,
       generatedAt = 1, gen_sourceGap = ex_gap \<rparr>"

definition ex_item :: "string \<Rightarrow> Level \<Rightarrow> int \<Rightarrow> ReviewStatus \<Rightarrow> ReviewItem" where
  "ex_item i p t st =
     \<lparr> item_id = i, item_type = code_generation, status = st, sourceGap = ex_gap,
       generatedCode = Some ex_code, validation = None,
       createdAt = t, updatedAt = t, expiresAt = t + 1000,
       reviewer = None, reviewedAt = None, feedback = None, priority = p \<rparr>"

definition ex_queue :: "int \<Rightarrow> (string \<times> ReviewItem) list \<Rightarrow> ReviewQueue" where
  "ex_queue cap xs =
     \<lparr> rq_config = \<lparr> expirationTime = 1000, maxPending = cap, lowPriorityTimeout = 5000 \<rparr>,
       items = xs, itemCounter = length xs \<rparr>"

definition ex_integrator :: "bool \<Rightarrow> IntegrationHistoryEntry list \<Rightarrow> Integrator" where
  "ex_integrator dry h =
     \<lparr> int_config = \<lparr> baseDir = ''atlas'', createBackups = True, backupDir = ''bak'', dryRun = dry \<rparr>,
       history = h \<rparr>"

definition ex_entry :: "bool \<Rightarrow> string option \<Rightarrow> IntegrationHistoryEntry" where
  "ex_entry can bkp =
     \<lparr> hist_id = ''int_7'', hist_reviewItemId = ''r1'', hist_generatedCodeId = ''gen_relation_1_1'',
       hist_type = relation, hist_name = ''orbits'', hist_targetFile = ''relations.ts'',
       integratedAt = 7, integratedBy = ''ada'', gitCommit = None,
       canRollback = can, backupPath = bkp \<rparr>"

definition ex_files :: fs where
  "ex_files =
     [''atlas'' \<mapsto> Dir, ''atlas/bak'' \<mapsto> Dir, ''atlas/relations.ts'' \<mapsto> File ''// BELOW'',
      ''atlas/domains.ts'' \<mapsto> File ''// DOMAINS'', ''atlas/foo.bak'' \<mapsto> File ''// FOO'',
      ''atlas/bak/old.bak'' \<mapsto> File ''// OLD'']"

definition ex_config :: SelfProductionConfig where
  "ex_config =
     \<lparr> enableGeneration = True, requireApproval = True, minValidationScore = 7/10,
       maxPendingReviews = 50, eng_baseDir = ''atlas'', eng_dryRun = False \<rparr>"

definition ex_engine :: "(string \<times> ReviewItem) list \<Rightarrow> SelfProductionEngine" where
  "ex_engine xs = (newSelfProductionEngine ex_config)\<lparr>reviewQueue := ex_queue 100 xs\<rparr>"

text \<open>The first entity of \<^verbatim>\<open>demoSelfProduction\<close>.\<close>

definition quantum_computer :: Entity where
  "quantum_computer =
     \<lparr> ent_id = ''quantum_computer'', ent_name = ''Quantum Computer'',
       ent_config = \<lparr> closure = 85/100, scope = 75/100,
                      strata = \<lparr> has_MATTER = True, has_LIFE = False, has_SENTIENCE = False,
                                 has_LOGOS = True \<rparr>,
                      capabilities = [PERSIST, REPRESENT], relations = [], uncertainty = 4/10 \<rparr>,
       ent_domain = ARTIFICIAL \<rparr>"

definition typical_inert :: Entity where
  "typical_inert =
     \<lparr> ent_id = ''rock'', ent_name = ''Rock'',
       ent_config = \<lparr> closure = 3/10, scope = 2/10,
                      strata = \<lparr> has_MATTER = True, has_LIFE = False, has_SENTIENCE = False,
                                 has_LOGOS = False \<rparr>,
                      capabilities = [PERSIST], relations = [], uncertainty = 1/10 \<rparr>,
       ent_domain = INERT \<rparr>"

text \<open>The order of the priorities as the specification words it: critical, high, medium, low.\<close>

fun outranks :: "Level \<Rightarrow> Level \<Rightarrow> bool" where
  "outranks critical p = (p \<noteq> critical)"
| "outranks high p = (p = medium \<or> p = low)"
| "outranks medium p = (p = low)"
| "outranks low p = False"

definition ex_decided :: ReviewQueue where
  "ex_decided =
     ex_queue 100 [(''r1'', ex_item ''r1'' high 10 approved), (''r2'', ex_item ''r2'' low 20 pending)]"

definition ex_full :: ReviewQueue where
  "ex_full = ex_queue 1 [(''r1'', ex_item ''r1'' low 10 pending)]"

definition ex_three :: ReviewQueue where
  "ex_three =
     ex_queue 2 [(''r1'', ex_item ''r1'' low 30 pending), (''r2'', ex_item ''r2'' high 20 pending),
                 (''r3'', ex_item ''r3'' low 10 pending), (''r4'', ex_item ''r4'' low 5 approved)]"

text \<open>The invariant of the item table: the keys are distinct and every item is stored under
  its own id, as \<^verbatim>\<open>this.items.set(item.id, item)\<close> has it on every path.\<close>

definition queue_wf :: "ReviewQueue \<Rightarrow> bool" where
  "queue_wf q = (distinct (map fst (items q)) \<and> list_all (\<lambda>(k, it). item_id it = k) (items q))"

text \<open>The entity of the specification's scenario: closure 0.85, scope 0.75, and the strata
  MATTER and LOGOS without LIFE and SENTIENCE.\<close>

definition scenario :: "Entity \<Rightarrow> bool" where
  "scenario e =
     (closure (ent_config e) = 85/100 \<and> scope (ent_config e) = 75/100
      \<and> strata (ent_config e)
          = \<lparr> has_MATTER = True, has_LIFE = False, has_SENTIENCE = False, has_LOGOS = True \<rparr>)"

section \<open>Review decisions are final\<close>

text \<open>
  C1.  For a review item whose status is not \<open>pending\<close>, each of \<open>approve\<close>, \<open>reject\<close> and
  \<open>modifyAndApprove\<close> on its id throws the state-conflict error \<open>ItemNotPending\<close> and leaves
  the whole queue, the item included, as it was.  A decision that succeeds found the item
  pending and leaves it in another status, so no item is decided twice.
\<close>

theorem review_decision_final:
  "(get q i = Some it \<and> status it \<noteq> pending \<longrightarrow>
      approve q now i who nts = (Inl (ItemNotPending i), q) \<and>
      reject q now i who rsn = (Inl (ItemNotPending i), q) \<and>
      modifyAndApprove q now i who mods nts = (Inl (ItemNotPending i), q))
   \<and> (approve q now i who nts = (Inr it', q') \<or> reject q now i who rsn = (Inr it', q')
        \<or> modifyAndApprove q now i who mods nts = (Inr it', q') \<longrightarrow>
      get q i \<noteq> None \<and> status (the (get q i)) = pending \<and>
      get q' i = Some it' \<and> status it' \<noteq> pending)"
  by (auto simp: get_def approve_def reject_def modifyAndApprove_def Let_def update_conv'
           split: option.splits if_splits)

theorem review_decision_final_witness:
  "get ex_decided ''r1'' = Some (ex_item ''r1'' high 10 approved)
   \<and> status (ex_item ''r1'' high 10 approved) \<noteq> pending
   \<and> approve ex_decided 30 ''r1'' ''ada'' None = (Inl (ItemNotPending ''r1''), ex_decided)
   \<and> reject ex_decided 30 ''r1'' ''ada'' ''no'' = (Inl (ItemNotPending ''r1''), ex_decided)
   \<and> modifyAndApprove ex_decided 30 ''r1'' ''ada'' ''x'' None = (Inl (ItemNotPending ''r1''), ex_decided)
   \<and> (\<exists>it' q'. reject ex_decided 30 ''r2'' ''ada'' ''no'' = (Inr it', q')
         \<and> get q' ''r2'' = Some it' \<and> status it' = rejected
         \<and> approve q' 40 ''r2'' ''bob'' None = (Inl (ItemNotPending ''r2''), q'))"
proof -
  have a: "get ex_decided ''r1'' = Some (ex_item ''r1'' high 10 approved)"
    by (simp add: ex_decided_def ex_queue_def get_def)
  have b: "status (ex_item ''r1'' high 10 approved) \<noteq> pending"
    by (simp add: ex_item_def)
  obtain it' q' where r: "reject ex_decided 30 ''r2'' ''ada'' ''no'' = (Inr it', q')"
    by (simp add: reject_def ex_decided_def ex_queue_def ex_item_def Let_def)
  have s: "status it' = rejected"
    using r by (auto simp: reject_def ex_decided_def ex_queue_def ex_item_def Let_def)
  from review_decision_final[of ex_decided "''r2''" it' 30 "''ada''" None "''no''" "''x''" it' q'] r
  have c: "get q' ''r2'' = Some it'" "status it' \<noteq> pending" by simp_all
  from review_decision_final[of q' "''r2''" it' 40 "''bob''" None "''no''" "''x''"] c
  have d: "approve q' 40 ''r2'' ''bob'' None = (Inl (ItemNotPending ''r2''), q')" by simp
  from review_decision_final[of ex_decided "''r1''" "ex_item ''r1'' high 10 approved" 30
         "''ada''" None "''no''" "''x''"] a b
  show ?thesis using r s c d by simp
qed

section \<open>The pending list is sorted\<close>

lemma mset_insort_by: "mset (insort_by c x xs) = add_mset x (mset xs)"
  by (induction xs) auto

lemma mset_sort_by: "mset (sort_by c xs) = mset xs"
  unfolding sort_by_def by (induction xs) (auto simp: mset_insort_by)

lemma set_insort_by: "set (insort_by c x xs) = insert x (set xs)"
  by (induction xs) auto

lemma sorted_insort_by:
  assumes total: "\<And>a b. c a b \<le> 0 \<or> c b a \<le> 0"
    and trans: "\<And>a b d. c a b \<le> 0 \<Longrightarrow> c b d \<le> 0 \<Longrightarrow> c a d \<le> 0"
  shows "sorted_wrt (\<lambda>a b. c a b \<le> 0) xs \<Longrightarrow> sorted_wrt (\<lambda>a b. c a b \<le> 0) (insort_by c x xs)"
proof (induction xs)
  case Nil
  then show ?case by simp
next
  case (Cons y ys)
  show ?case
  proof (cases "c x y \<le> 0")
    case True
    then have "\<forall>z\<in>set ys. c x z \<le> 0" using Cons.prems trans by auto
    with True Cons.prems show ?thesis by simp
  next
    case False
    then have "c y x \<le> 0" using total by blast
    with False Cons show ?thesis by (auto simp: set_insort_by)
  qed
qed

lemma sorted_sort_by:
  assumes total: "\<And>a b. c a b \<le> 0 \<or> c b a \<le> 0"
    and trans: "\<And>a b d. c a b \<le> 0 \<Longrightarrow> c b d \<le> 0 \<Longrightarrow> c a d \<le> 0"
  shows "sorted_wrt (\<lambda>a b. c a b \<le> 0) (sort_by c xs)"
  unfolding sort_by_def
  by (induction xs) (auto intro: sorted_insort_by[OF total trans])

lemma priorityOrder_outranks: "priorityOrder p < priorityOrder p' \<longleftrightarrow> outranks p p'"
  by (cases p; cases p') (auto simp: priorityOrder_def)

lemma priorityOrder_inj: "priorityOrder p = priorityOrder p' \<longleftrightarrow> p = p'"
  by (cases p; cases p') (auto simp: priorityOrder_def)

lemma comparePending_le:
  "comparePending a b \<le> 0 \<longleftrightarrow>
     outranks (priority a) (priority b) \<or> (priority a = priority b \<and> createdAt a \<le> createdAt b)"
  using priorityOrder_outranks[of "priority a" "priority b"]
    priorityOrder_inj[of "priority a" "priority b"]
  by (auto simp: comparePending_def Let_def)

lemma comparePending_total: "comparePending a b \<le> 0 \<or> comparePending b a \<le> 0"
  by (auto simp: comparePending_def Let_def)

lemma comparePending_trans:
  "comparePending a b \<le> 0 \<Longrightarrow> comparePending b d \<le> 0 \<Longrightarrow> comparePending a d \<le> 0"
  by (auto simp: comparePending_def Let_def split: if_splits)

lemma pending_after_expiry:
  "filter (\<lambda>it. status it = pending) (map snd (items (expireOldItems q now)))
   = filter (\<lambda>it. status it = pending \<and> \<not> expiresAt it < now) (map snd (items q))"
proof -
  have "filter (\<lambda>it. status it = pending)
          (map snd (map (\<lambda>(k, it). (k, if status it = pending \<and> expiresAt it < now
                                        then expireItem now it else it)) xs))
        = filter (\<lambda>it. status it = pending \<and> \<not> expiresAt it < now) (map snd xs)" for xs
    by (induction xs) (auto simp: expireItem_def split: if_splits)
  then show ?thesis by (simp add: expireOldItems_def)
qed

lemma listPending_eq:
  "fst (listPending q now) = sort_by comparePending
      (filter (\<lambda>it. status it = pending \<and> \<not> expiresAt it < now) (map snd (items q)))"
  by (simp add: listPending_def Let_def pending_after_expiry)

text \<open>
  C5.  In every queue state \<open>listPending\<close> returns exactly the items that are pending and whose
  deadline has not passed (as a multiset: each such item once, nothing else), sorted by
  priority in the order critical, high, medium, low and, within one priority, by ascending
  creation time.
\<close>

theorem listPending_sorted:
  "mset (fst (listPending q now))
     = mset (filter (\<lambda>it. status it = pending \<and> \<not> expiresAt it < now) (map snd (items q)))
   \<and> sorted_wrt (\<lambda>a b. outranks (priority a) (priority b)
                        \<or> (priority a = priority b \<and> createdAt a \<le> createdAt b))
        (fst (listPending q now))"
proof -
  have "sorted_wrt (\<lambda>a b. comparePending a b \<le> 0) (fst (listPending q now))"
    unfolding listPending_eq by (rule sorted_sort_by[OF comparePending_total comparePending_trans])
  then show ?thesis by (simp add: listPending_eq mset_sort_by comparePending_le)
qed

section \<open>Validation result\<close>

lemma checkLoop_passed:
  "t_passed (checkLoop axs g t) =
     t_passed t @ map ax_id (filter (\<lambda>a. \<not> violated (checkAxiom a g) \<and> \<not> warning (checkAxiom a g)) axs)"
  by (induction axs arbitrary: t) (auto simp: Let_def)

lemma checkLoop_violations:
  "map viol_axiomId (t_violations (checkLoop axs g t)) =
     map viol_axiomId (t_violations t) @ map ax_id (filter (\<lambda>a. violated (checkAxiom a g)) axs)"
  by (induction axs arbitrary: t) (auto simp: Let_def)

lemma relevantAxioms_nonempty: "relevantAxioms g \<noteq> []"
  by (simp add: relevantAxioms_def AXIOMS_def)

text \<open>
  C2.  For every generated artifact the result of \<open>validate\<close> has \<open>valid\<close> true exactly when
  its list of violations is empty, and its score is the maximum of 0 and the number of
  passed rules divided by the number of applicable rules, less 0.1 for every warning that
  requires review.  The passed rules are the applicable rules whose check neither
  violates nor warns, the violations come from the applicable rules whose check is
  violated, and there is always an applicable rule.
\<close>

theorem validate_valid_and_score:
  "valid (validate g) = (violations (validate g) = [])
   \<and> score (validate g) =
       max 0 (of_nat (length (passed (validate g))) / of_nat (length (relevantAxioms g))
              - (1/10) * of_nat (length (filter warn_requiresReview (warnings (validate g)))))
   \<and> passed (validate g) =
       map ax_id (filter (\<lambda>a. \<not> violated (checkAxiom a g) \<and> \<not> warning (checkAxiom a g))
                    (relevantAxioms g))
   \<and> map viol_axiomId (violations (validate g)) =
       map ax_id (filter (\<lambda>a. violated (checkAxiom a g)) (relevantAxioms g))
   \<and> relevantAxioms g \<noteq> []"
  using relevantAxioms_nonempty[of g]
  by (simp add: validate_def Let_def checkLoop_passed checkLoop_violations)

section \<open>Inference of the new-domain generator\<close>

lemma inferCompatibleStrata_cases:
  "inferCompatibleStrata cs
     \<in> {[MATTER], [MATTER, LIFE], [MATTER, LIFE, SENTIENCE], [MATTER, LIFE, SENTIENCE, LOGOS]}"
  by (simp add: inferCompatibleStrata_def Let_def)

text \<open>
  C9.  For every list of characteristics the inferred \<open>compatibleStrata\<close> is a non-empty
  prefix of the order MATTER, LIFE, SENTIENCE, LOGOS, so it contains MATTER and skips no
  level; for the characteristics \<open>autonomous\<close> and \<open>global\<close> the inferred typical closure and
  the inferred typical scope are both 0.6, which is greater than 0.5.
\<close>

theorem inferCompatibleStrata_prefix:
  "(\<exists>n. 1 \<le> n \<and> n \<le> 4 \<and> inferCompatibleStrata cs = take n strata_order)
   \<and> MATTER \<in> set (inferCompatibleStrata cs)
   \<and> inferTypicalClosure [''autonomous'', ''global''] = 6/10
   \<and> inferTypicalScope [''autonomous'', ''global''] = 6/10
   \<and> inferTypicalClosure [''autonomous'', ''global''] > 1/2
   \<and> inferTypicalScope [''autonomous'', ''global''] > 1/2"
proof -
  have c: "inferTypicalClosure [''autonomous'', ''global''] = 6/10"
    by (simp add: inferTypicalClosure_def clamp_score_def some_included_def includes_str_def
          toLowerCase_def Let_def)
  have s: "inferTypicalScope [''autonomous'', ''global''] = 6/10"
    by (simp add: inferTypicalScope_def clamp_score_def some_included_def includes_str_def
          toLowerCase_def Let_def)
  have "\<exists>n. 1 \<le> n \<and> n \<le> 4 \<and> inferCompatibleStrata cs = take n strata_order"
    using inferCompatibleStrata_cases[of cs]
  proof (elim insertE)
    assume "inferCompatibleStrata cs = [MATTER]"
    then show ?thesis by (intro exI[of _ 1]) (simp add: strata_order_def)
  next
    assume "inferCompatibleStrata cs = [MATTER, LIFE]"
    then show ?thesis by (intro exI[of _ 2]) (simp add: strata_order_def numeral_2_eq_2)
  next
    assume "inferCompatibleStrata cs = [MATTER, LIFE, SENTIENCE]"
    then show ?thesis by (intro exI[of _ 3]) (simp add: strata_order_def numeral_3_eq_3)
  next
    assume "inferCompatibleStrata cs = [MATTER, LIFE, SENTIENCE, LOGOS]"
    then show ?thesis by (intro exI[of _ 4]) (simp add: strata_order_def)
  qed simp
  moreover have "MATTER \<in> set (inferCompatibleStrata cs)"
    using inferCompatibleStrata_cases[of cs] by auto
  ultimately show ?thesis using c s by simp
qed

section \<open>Domain fit\<close>

lemma set_misfitLoop:
  "set (misfitLoop cfg es acc) =
     set acc \<union> {e \<in> set es. calculateDomainFitScore e < domainMisfitThreshold cfg}"
  by (induction es arbitrary: acc) (auto simp: Let_def)

lemma domainCharacteristics_total: "\<exists>tc ts. domainCharacteristics d = Some (tc, ts)"
proof -
  have "domainCharacteristics d \<noteq> None"
    by (cases d) (simp_all add: domainCharacteristics_def)
  then show ?thesis by auto
qed

lemma fit_score_formula:
  "domainCharacteristics (ent_domain e) = Some (tc, ts) \<Longrightarrow>
   calculateDomainFitScore e = 1 - (\<bar>closure (ent_config e) - tc\<bar> + \<bar>scope (ent_config e) - ts\<bar>) / 2"
  by (simp add: calculateDomainFitScore_def Let_def)

text \<open>
  C8.  Every entity's domain has a typical pair, and the entity's domain-fit score is
  1 - (|closure - typicalClosure| + |scope - typicalScope|) / 2 for that pair.  An entity
  whose closure and scope are the typical pair scores 1 and is not among the misfits that
  the engine's analyzer (default threshold 0.4) finds in any entity list; the same holds for
  an analyzer with any misfit threshold up to 1, the largest score there is.
\<close>

theorem domain_fit_score:
  "(\<exists>tc ts. domainCharacteristics (ent_domain e) = Some (tc, ts)
       \<and> calculateDomainFitScore e
           = 1 - (\<bar>closure (ent_config e) - tc\<bar> + \<bar>scope (ent_config e) - ts\<bar>) / 2)
   \<and> (domainCharacteristics (ent_domain e) = Some (closure (ent_config e), scope (ent_config e))
        \<longrightarrow> calculateDomainFitScore e = 1
            \<and> e \<notin> set (findMisfits (ga_config (gapAnalyzer (newSelfProductionEngine ecfg))) es)
            \<and> (domainMisfitThreshold cfg \<le> 1 \<longrightarrow> e \<notin> set (findMisfits cfg es)))"
proof (intro conjI impI)
  obtain tc ts where t: "domainCharacteristics (ent_domain e) = Some (tc, ts)"
    using domainCharacteristics_total by blast
  from fit_score_formula[OF t] t
  show "\<exists>tc ts. domainCharacteristics (ent_domain e) = Some (tc, ts)
       \<and> calculateDomainFitScore e
           = 1 - (\<bar>closure (ent_config e) - tc\<bar> + \<bar>scope (ent_config e) - ts\<bar>) / 2"
    by blast
next
  assume t: "domainCharacteristics (ent_domain e) = Some (closure (ent_config e), scope (ent_config e))"
  from fit_score_formula[OF t] show one: "calculateDomainFitScore e = 1" by simp
  from one show "e \<notin> set (findMisfits (ga_config (gapAnalyzer (newSelfProductionEngine ecfg))) es)"
    by (simp add: findMisfits_def set_misfitLoop newSelfProductionEngine_def newGapAnalyzer_def
          GAP_DEFAULT_CONFIG_def)
  assume "domainMisfitThreshold cfg \<le> 1"
  with one show "e \<notin> set (findMisfits cfg es)"
    by (simp add: findMisfits_def set_misfitLoop)
qed

theorem domain_fit_score_witness:
  "domainCharacteristics (ent_domain typical_inert)
     = Some (closure (ent_config typical_inert), scope (ent_config typical_inert))
   \<and> domainMisfitThreshold GAP_DEFAULT_CONFIG \<le> 1
   \<and> calculateDomainFitScore typical_inert = 1
   \<and> typical_inert \<notin> set (findMisfits (ga_config (gapAnalyzer (newSelfProductionEngine ex_config)))
                                [quantum_computer, typical_inert])
   \<and> typical_inert \<notin> set (findMisfits GAP_DEFAULT_CONFIG [quantum_computer, typical_inert])
   \<and> calculateDomainFitScore quantum_computer = 3/4"
  using domain_fit_score[of typical_inert ex_config "[quantum_computer, typical_inert]" GAP_DEFAULT_CONFIG]
  by (simp add: typical_inert_def quantum_computer_def domainCharacteristics_def
        GAP_DEFAULT_CONFIG_def calculateDomainFitScore_def)

section \<open>Axiom tensions of the scenario entity\<close>

lemma tensionStep_mono: "set gaps \<subseteq> set (fst (tensionStep now e gaps c))"
  by (auto simp: tensionStep_def Let_def split: prod.splits)

lemma tensionStep_a4:
  "ent_domain e \<noteq> IDEAL \<Longrightarrow> \<not> respectsStratalNesting (getActiveStrata e) \<Longrightarrow>
   \<exists>gid. a4_nesting_gap gid now e \<in> set (fst (tensionStep now e gaps c))"
  by (auto simp: tensionStep_def Let_def split: prod.splits)

lemma tensionStep_low:
  "g \<in> set (fst (tensionStep now e gaps c)) \<Longrightarrow> gap_severity g = low \<Longrightarrow>
   g \<in> set gaps \<or> (ent_domain e \<noteq> IDEAL \<and> closure (ent_config e) > 8/10 \<and> scope (ent_config e) > 8/10)"
  by (auto simp: tensionStep_def Let_def a4_nesting_gap_def split: prod.splits if_splits)

lemma tensionLoop_mono: "set gaps \<subseteq> set (fst (tensionLoop now es gaps c))"
proof (induction es arbitrary: gaps c)
  case Nil
  then show ?case by simp
next
  case (Cons e es)
  obtain g2 c2 where s: "tensionStep now e gaps c = (g2, c2)" by force
  have "set gaps \<subseteq> set g2" using tensionStep_mono[of gaps now e c] s by simp
  then show ?case using Cons.IH[of g2 c2] s by auto
qed

lemma tensionLoop_emits_a4:
  assumes "e \<in> set es" "ent_domain e \<noteq> IDEAL" "\<not> respectsStratalNesting (getActiveStrata e)"
  shows "\<exists>gid. a4_nesting_gap gid now e \<in> set (fst (tensionLoop now es gaps c))"
  using assms(1)
proof (induction es arbitrary: gaps c)
  case Nil
  then show ?case by simp
next
  case (Cons x xs)
  obtain g2 c2 where s: "tensionStep now x gaps c = (g2, c2)" by force
  show ?case
  proof (cases "x = e")
    case True
    obtain gid where "a4_nesting_gap gid now e \<in> set g2"
      using tensionStep_a4[OF assms(2,3), of now gaps c] s True by auto
    then show ?thesis using tensionLoop_mono[of g2 now xs c2] s by auto
  next
    case False
    then have "e \<in> set xs" using Cons.prems by simp
    from Cons.IH[OF this, of g2 c2] show ?thesis using s by simp
  qed
qed

lemma tensionLoop_low_origin:
  assumes "g \<in> set (fst (tensionLoop now es gaps c))" "gap_severity g = low"
  shows "g \<in> set gaps \<or>
         (\<exists>e \<in> set es. ent_domain e \<noteq> IDEAL \<and> closure (ent_config e) > 8/10
                        \<and> scope (ent_config e) > 8/10)"
  using assms(1)
proof (induction es arbitrary: gaps c)
  case Nil
  then show ?case by simp
next
  case (Cons x xs)
  obtain g2 c2 where s: "tensionStep now x gaps c = (g2, c2)" by force
  from Cons.prems s have "g \<in> set (fst (tensionLoop now xs g2 c2))" by simp
  from Cons.IH[OF this]
  consider "g \<in> set g2"
    | "\<exists>e \<in> set xs. ent_domain e \<noteq> IDEAL \<and> closure (ent_config e) > 8/10
                    \<and> scope (ent_config e) > 8/10" by blast
  then show ?case
  proof cases
    case 1
    then show ?thesis using tensionStep_low[of g now x gaps c] s assms(2) by auto
  next
    case 2
    then show ?thesis by auto
  qed
qed

lemma scenario_breaks_nesting: "scenario e \<Longrightarrow> \<not> respectsStratalNesting (getActiveStrata e)"
  by (simp add: scenario_def respectsStratalNesting_def getActiveStrata_def strata_order_def)

text \<open>
  C4, at the first entity of the demonstration (\<open>quantum_computer\<close>: domain \<open>ARTIFICIAL\<close>, closure
  0.85, scope 0.75, strata MATTER and LOGOS without LIFE and SENTIENCE).  The specification
  expects for every entity of the scenario a critical \<open>axiom_tension\<close> gap with the action
  \<open>axiom_review\<close> and, outside the exempt domain, a separate low-severity gap for high closure
  plus scope.  The analysis of this entity emits the critical gap and nothing else: there is
  no low-severity gap, because the analyzer asks for closure and scope both above 0.8 and the
  scope is 0.75, while the validator's check of the same axiom (both above 0.7) flags the pair
  0.85 and 0.75 for review.  For the same entity in the exempt domain \<open>IDEAL\<close> the analysis emits
  no gap at all: the \<^verbatim>\<open>continue\<close> of the exemption also skips the nesting check, so the critical
  gap is missing as well.
\<close>

theorem scenario_gaps_missing:
  "scenario quantum_computer \<and> ent_domain quantum_computer = ARTIFICIAL
   \<and> map (\<lambda>g. (gap_type g, gap_severity g, act_type (suggestedAction g)))
         (fst (analyzeAxiomTensions 0 [quantum_computer] 0))
       = [(axiom_tension, critical, axiom_review)]
   \<and> low \<notin> set (map gap_severity (fst (analyzeAxiomTensions 0 [quantum_computer] 0)))
   \<and> scenario (quantum_computer\<lparr>ent_domain := IDEAL\<rparr>)
   \<and> fst (analyzeAxiomTensions 0 [quantum_computer\<lparr>ent_domain := IDEAL\<rparr>] 0) = []
   \<and> warning (checkA3ClosureScope
                (ex_code\<lparr>gen_type := domain,
                          gen_code := ''typicalClosure: 0.85, typicalScope: 0.75''\<rparr>))
   \<and> cr_requiresReview (checkA3ClosureScope
                (ex_code\<lparr>gen_type := domain,
                          gen_code := ''typicalClosure: 0.85, typicalScope: 0.75''\<rparr>))"
proof -
  have a: "scenario quantum_computer \<and> ent_domain quantum_computer = ARTIFICIAL
   \<and> map (\<lambda>g. (gap_type g, gap_severity g, act_type (suggestedAction g)))
         (fst (analyzeAxiomTensions 0 [quantum_computer] 0))
       = [(axiom_tension, critical, axiom_review)]
   \<and> low \<notin> set (map gap_severity (fst (analyzeAxiomTensions 0 [quantum_computer] 0)))
   \<and> scenario (quantum_computer\<lparr>ent_domain := IDEAL\<rparr>)
   \<and> fst (analyzeAxiomTensions 0 [quantum_computer\<lparr>ent_domain := IDEAL\<rparr>] 0) = []"
    by (simp add: scenario_def quantum_computer_def analyzeAxiomTensions_def tensionStep_def
        respectsStratalNesting_def getActiveStrata_def strata_order_def a4_nesting_gap_def Let_def
        split: prod.splits)
  have b: "warning (checkA3ClosureScope
                (ex_code\<lparr>gen_type := domain,
                          gen_code := ''typicalClosure: 0.85, typicalScope: 0.75''\<rparr>))
   \<and> cr_requiresReview (checkA3ClosureScope
                (ex_code\<lparr>gen_type := domain,
                          gen_code := ''typicalClosure: 0.85, typicalScope: 0.75''\<rparr>))"
    by code_simp
  from a b show ?thesis by (simp only: simp_thms)
qed

text \<open>
  The analysis of an entity of the scenario in general.  Outside the domain \<open>IDEAL\<close>, the
  analysis of any entity list that contains the entity emits a critical \<open>axiom_tension\<close> gap
  about it whose action is \<open>axiom_review\<close>, and that gap is the only one the entity gives rise
  to.  In the domain \<open>IDEAL\<close> the entity gives rise to no gap.
\<close>

theorem scenario_tension_gaps:
  assumes "scenario e"
  shows "(ent_domain e \<noteq> IDEAL \<longrightarrow>
            (e \<in> set es \<longrightarrow>
               (\<exists>g \<in> set (fst (analyzeAxiomTensions now es c)).
                  gap_type g = axiom_tension \<and> gap_severity g = critical
                  \<and> act_type (suggestedAction g) = axiom_review
                  \<and> map ev_entityId (gap_evidence g) = [Some (ent_id e)]))
            \<and> low \<notin> set (map gap_severity (fst (analyzeAxiomTensions now [e] c)))
            \<and> length (fst (analyzeAxiomTensions now [e] c)) = 1)
       \<and> (ent_domain e = IDEAL \<longrightarrow> fst (analyzeAxiomTensions now [e] c) = [])"
proof (intro conjI impI)
  assume ni: "ent_domain e \<noteq> IDEAL"
  {
    assume mem: "e \<in> set es"
    obtain gid where "a4_nesting_gap gid now e \<in> set (fst (analyzeAxiomTensions now es c))"
      using tensionLoop_emits_a4[OF mem ni scenario_breaks_nesting[OF assms]]
      unfolding analyzeAxiomTensions_def by blast
    then show "\<exists>g \<in> set (fst (analyzeAxiomTensions now es c)).
              gap_type g = axiom_tension \<and> gap_severity g = critical
              \<and> act_type (suggestedAction g) = axiom_review
              \<and> map ev_entityId (gap_evidence g) = [Some (ent_id e)]"
      by (intro bexI[of _ "a4_nesting_gap gid now e"]) (simp_all add: a4_nesting_gap_def Let_def)
  }
  have "gap_severity g \<noteq> low" if "g \<in> set (fst (analyzeAxiomTensions now [e] c))" for g
  proof
    assume "gap_severity g = low"
    from tensionLoop_low_origin[OF that[unfolded analyzeAxiomTensions_def] this]
    show False using assms by (simp add: scenario_def)
  qed
  then show "low \<notin> set (map gap_severity (fst (analyzeAxiomTensions now [e] c)))" by fastforce
  show "length (fst (analyzeAxiomTensions now [e] c)) = 1"
    using assms ni scenario_breaks_nesting[OF assms]
    by (simp add: analyzeAxiomTensions_def tensionStep_def scenario_def Let_def split: prod.splits)
next
  assume "ent_domain e = IDEAL"
  then show "fst (analyzeAxiomTensions now [e] c) = []"
    by (simp add: analyzeAxiomTensions_def tensionStep_def)
qed

theorem scenario_tension_gaps_witness:
  "scenario quantum_computer \<and> ent_domain quantum_computer \<noteq> IDEAL
   \<and> quantum_computer \<in> set [typical_inert, quantum_computer]
   \<and> (\<exists>g \<in> set (fst (analyzeAxiomTensions 0 [typical_inert, quantum_computer] 0)).
         gap_type g = axiom_tension \<and> gap_severity g = critical
         \<and> act_type (suggestedAction g) = axiom_review
         \<and> map ev_entityId (gap_evidence g) = [Some ''quantum_computer''])
   \<and> low \<notin> set (map gap_severity (fst (analyzeAxiomTensions 0 [quantum_computer] 0)))
   \<and> length (fst (analyzeAxiomTensions 0 [quantum_computer] 0)) = 1
   \<and> scenario (quantum_computer\<lparr>ent_domain := IDEAL\<rparr>)
   \<and> fst (analyzeAxiomTensions 0 [quantum_computer\<lparr>ent_domain := IDEAL\<rparr>] 0) = []"
proof -
  have s: "scenario quantum_computer" "ent_domain quantum_computer \<noteq> IDEAL"
    "scenario (quantum_computer\<lparr>ent_domain := IDEAL\<rparr>)"
    by (simp_all add: scenario_def quantum_computer_def)
  have i: "ent_id quantum_computer = ''quantum_computer''"
    by (simp add: quantum_computer_def)
  from scenario_tension_gaps[OF s(1), of "[typical_inert, quantum_computer]" 0 0]
    scenario_tension_gaps[OF s(3), of "[]" 0 0] s i
  show ?thesis by simp
qed

section \<open>Files and integration\<close>

text \<open>What a successful file operation leaves behind, and what a successful run of
  \<open>integrate\<close> returns.\<close>

lemma stat_upd_other: "fs_key p \<noteq> k \<Longrightarrow> stat (files(k \<mapsto> n)) p = stat files p"
  by (simp add: stat_def node_at_def)


lemma read_ok: "readFileSync files p = Inr c \<longleftrightarrow> stat files p = Some (File c)"
  by (auto simp: readFileSync_def split: option.splits node.splits)

lemma write_ok:
  assumes "writeFileSync files p c = Inr files'"
  shows "files' = files(fs_key p \<mapsto> File c)" "stat files' p = Some (File c)" "p \<noteq> []"
  using assms
  by (auto simp: writeFileSync_def stat_def node_at_def Let_def split: if_splits option.splits node.splits)


lemma copy_ok:
  assumes "copyFileSync files s d = Inr files'"
  shows "\<exists>c. stat files s = Some (File c) \<and> files' = files(fs_key d \<mapsto> File c)
             \<and> stat files' d = Some (File c)" "d \<noteq> []"
proof -
  from assms obtain c where r: "readFileSync files s = Inr c" and w: "writeFileSync files d c = Inr files'"
    by (auto simp: copyFileSync_def split: sum.splits)
  from r have "stat files s = Some (File c)" by (simp add: read_ok)
  with write_ok[OF w] show "\<exists>c. stat files s = Some (File c) \<and> files' = files(fs_key d \<mapsto> File c)
             \<and> stat files' d = Some (File c)" "d \<noteq> []" by auto
qed


lemma applyCode_new:
  assumes "\<not> dryRun (int_config I)" "\<not> existsSync files (targetPathOf I (gen_targetFile g))"
    "applyCode I files isoDate g = (Inr a, files')"
  shows "a = created"
    "stat files' (targetPathOf I (gen_targetFile g)) = Some (File (wrapNewFile g isoDate))"
proof -
  let ?t = "targetPathOf I (gen_targetFile g)"
  from assms obtain f1 where w: "writeFileSync f1 ?t (wrapNewFile g isoDate) = Inr files'" and a: "a = created"
    by (auto simp: applyCode_def Let_def targetPathOf_def split: sum.splits if_splits)
  from a show "a = created" .
  from write_ok(2)[OF w] show "stat files' ?t = Some (File (wrapNewFile g isoDate))" .
qed

lemma applyCode_existing:
  assumes "\<not> dryRun (int_config I)" "existsSync files (targetPathOf I (gen_targetFile g))"
    "applyCode I files isoDate g = (Inr a, files')"
  shows "\<exists>c. stat files (targetPathOf I (gen_targetFile g)) = Some (File c) \<and> a = modified_file
            \<and> files' = files(fs_key (targetPathOf I (gen_targetFile g))
                          \<mapsto> File (applyInsertion c (gen_code g) (insertionPoint g)))"
proof -
  let ?t = "targetPathOf I (gen_targetFile g)"
  from assms obtain c where r: "readFileSync files ?t = Inr c"
    and w: "writeFileSync files ?t (applyInsertion c (gen_code g) (insertionPoint g)) = Inr files'"
    and a: "a = modified_file"
    by (auto simp: applyCode_def Let_def targetPathOf_def split: sum.splits if_splits)
  from r have "stat files ?t = Some (File c)" by (simp add: read_ok)
  with write_ok(1)[OF w] a show ?thesis by blast
qed

lemma createBackup_ok:
  assumes "createBackup I files now (targetPathOf I f) gid = (Inr b, files1)"
  shows "b = backupPathOf I now f gid" "b \<noteq> []"
    "\<exists>c. stat files (targetPathOf I f) = Some (File c) \<and> files1 = files(fs_key b \<mapsto> File c)
          \<and> stat files1 b = Some (File c)"
proof -
  from assms have b: "b = backupPathOf I now f gid"
    and cp: "copyFileSync files (targetPathOf I f) b = Inr files1"
    by (auto simp: createBackup_def backupPathOf_def Let_def split: sum.splits)
  from b show "b = backupPathOf I now f gid" .
  from copy_ok[OF cp] show "b \<noteq> []"
    "\<exists>c. stat files (targetPathOf I f) = Some (File c) \<and> files1 = files(fs_key b \<mapsto> File c)
          \<and> stat files1 b = Some (File c)" by auto
qed

lemma createBackup_failed: "createBackup I files now p gid = (Inl e, files1) \<Longrightarrow> files1 = files"
  by (auto simp: createBackup_def Let_def split: sum.splits)


lemma stat_backup_kept:
  "stat files p = Some (File c) \<Longrightarrow> stat (files(k \<mapsto> File c)) p = Some (File c)"
  by (auto simp: stat_def node_at_def split: if_splits option.splits node.splits)

lemma integrate_success:
  assumes g: "generatedCode it = Some g" and nd: "\<not> dryRun (int_config I)"
    and int: "integrate I files now isoDate it = (r, I1, files1)" and ok: "res_success r"
  shows "I1 = I\<lparr>history := history I @ [historyEntryOf it g now (res_backup r)]\<rparr>"
    and "\<not> existsSync files (targetPathOf I (gen_targetFile g)) \<Longrightarrow>
          res_action r = created \<and> res_backup r = None
          \<and> stat files1 (targetPathOf I (gen_targetFile g)) = Some (File (wrapNewFile g isoDate))"
    and "existsSync files (targetPathOf I (gen_targetFile g)) \<Longrightarrow>
          \<exists>c. stat files (targetPathOf I (gen_targetFile g)) = Some (File c)
             \<and> res_action r = modified_file
             \<and> (if createBackups (int_config I)
                 then res_backup r = Some (backupPathOf I now (gen_targetFile g) (gen_id g))
                      \<and> backupPathOf I now (gen_targetFile g) (gen_id g) \<noteq> []
                      \<and> files1 = (files(fs_key (backupPathOf I now (gen_targetFile g) (gen_id g)) \<mapsto> File c))
                                   (fs_key (targetPathOf I (gen_targetFile g))
                                      \<mapsto> File (applyInsertion c (gen_code g) (insertionPoint g)))
                 else res_backup r = None
                      \<and> files1 = files(fs_key (targetPathOf I (gen_targetFile g))
                                      \<mapsto> File (applyInsertion c (gen_code g) (insertionPoint g))))"
proof -
  let ?t = "targetPathOf I (gen_targetFile g)"
  let ?b = "backupPathOf I now (gen_targetFile g) (gen_id g)"
  let ?W = "\<lambda>c. applyInsertion c (gen_code g) (insertionPoint g)"
  have fr: "\<not> res_success (failedResult it g e now)" for e by (simp add: failedResult_def)
  show "I1 = I\<lparr>history := history I @ [historyEntryOf it g now (res_backup r)]\<rparr>"
    using int ok g fr
    by (auto simp: integrate_def Let_def historyEntryOf_def split: prod.splits sum.splits if_splits)
  {
    assume ne: "\<not> existsSync files ?t"
    then have "integrate I files now isoDate it =
        (case applyCode I files isoDate g of
           (Inl e, files2) \<Rightarrow> (failedResult it g e now, I, files2)
         | (Inr action, files2) \<Rightarrow>
             (\<lparr> res_success = True, res_itemId = item_id it, res_generatedCodeId = gen_id g,
                res_targetFile = gen_targetFile g, res_action = action, res_error = None,
                res_backup = None, res_timestamp = now \<rparr>,
              I\<lparr>history := history I @ [historyEntryOf it g now None]\<rparr>, files2))"
      using g by (simp add: integrate_def Let_def targetPathOf_def historyEntryOf_def split: prod.splits sum.splits)
    with int ok fr obtain a where ap: "applyCode I files isoDate g = (Inr a, files1)"
      and r: "res_action r = a" "res_backup r = None"
      by (auto split: prod.splits sum.splits)
    from applyCode_new[OF nd ne ap] r
    show "res_action r = created \<and> res_backup r = None
          \<and> stat files1 ?t = Some (File (wrapNewFile g isoDate))" by simp
  }
  {
    assume ex: "existsSync files ?t"
    show "\<exists>c. stat files ?t = Some (File c) \<and> res_action r = modified_file
             \<and> (if createBackups (int_config I)
                 then res_backup r = Some ?b \<and> ?b \<noteq> []
                      \<and> files1 = (files(fs_key ?b \<mapsto> File c))(fs_key ?t \<mapsto> File (?W c))
                 else res_backup r = None \<and> files1 = files(fs_key ?t \<mapsto> File (?W c)))"
    proof (cases "createBackups (int_config I)")
      case False
      then have "integrate I files now isoDate it =
        (case applyCode I files isoDate g of
           (Inl e, files2) \<Rightarrow> (failedResult it g e now, I, files2)
         | (Inr action, files2) \<Rightarrow>
             (\<lparr> res_success = True, res_itemId = item_id it, res_generatedCodeId = gen_id g,
                res_targetFile = gen_targetFile g, res_action = action, res_error = None,
                res_backup = None, res_timestamp = now \<rparr>,
              I\<lparr>history := history I @ [historyEntryOf it g now None]\<rparr>, files2))"
        using g by (simp add: integrate_def Let_def historyEntryOf_def split: prod.splits sum.splits)
      with int ok fr obtain a where ap: "applyCode I files isoDate g = (Inr a, files1)"
        and r: "res_action r = a" "res_backup r = None"
        by (auto split: prod.splits sum.splits)
      from applyCode_existing[OF nd ex ap] r False show ?thesis by auto
    next
      case True
      obtain x f where cb: "createBackup I files now ?t (gen_id g) = (x, f)" by force
      have "integrate I files now isoDate it =
        (case x of
           Inl e \<Rightarrow> (failedResult it g e now, I, f)
         | Inr b \<Rightarrow>
            (case applyCode I f isoDate g of
               (Inl e, files2) \<Rightarrow> (failedResult it g e now, I, files2)
             | (Inr action, files2) \<Rightarrow>
                 (\<lparr> res_success = True, res_itemId = item_id it, res_generatedCodeId = gen_id g,
                    res_targetFile = gen_targetFile g, res_action = action, res_error = None,
                    res_backup = Some b, res_timestamp = now \<rparr>,
                  I\<lparr>history := history I @ [historyEntryOf it g now (Some b)]\<rparr>, files2)))"
        using g True ex cb
        by (simp add: integrate_def Let_def historyEntryOf_def targetPathOf_def[symmetric]
              split: prod.splits sum.splits)
      with int ok fr obtain b a where x: "x = Inr b"
        and ap: "applyCode I f isoDate g = (Inr a, files1)"
        and r: "res_action r = a" "res_backup r = Some b"
        by (auto split: prod.splits sum.splits)
      from createBackup_ok[OF cb[unfolded x]] obtain c where
        b: "b = ?b" "b \<noteq> []" and c: "stat files ?t = Some (File c)"
        and f: "f = files(fs_key b \<mapsto> File c)" by auto
      have "stat f ?t = Some (File c)" unfolding f using c by (rule stat_backup_kept)
      then have ex2: "existsSync f ?t" by (simp add: existsSync_def)
      from applyCode_existing[OF nd ex2 ap] \<open>stat f ?t = Some (File c)\<close>
      have "a = modified_file" "files1 = f(fs_key ?t \<mapsto> File (?W c))" by auto
      with r b c f True show ?thesis by auto
    qed
  }
qed

text \<open>The definitions that a run of the integrator on the concrete inputs unfolds.\<close>

lemmas run_defs =
  ex_item_def ex_integrator_def ex_entry_def ex_files_def ex_code_def integrate_def rollback_def
  Let_def targetPathOf_def
  path_join_def path_normalize_def normalizeString_def normalizeStep_def join_def fs_key_def
  implicit_dir_def node_at_def stat_def existsSync_def createBackup_def copyFileSync_def
  applyCode_def readFileSync_def writeFileSync_def path_dirname_def path_basename_def
  applyInsertion_def truthy_def nl_def show_int_def show_nat.simps digit_char_def or_default_def

section \<open>Integration requires approval\<close>

text \<open>
  C3, at a pending item.  The specification requires the integration of an item whose status
  is neither \<open>approved\<close> nor \<open>modified\<close> to fail fast with a state error, writing nothing and
  leaving the history as it is.  \<open>Integrator.integrate\<close> never reads the status of the item: its
  result is the same whatever the status.  Called with a pending item that carries an artifact
  it succeeds, writes the target file and pushes a record onto the history.  The engine's
  \<open>integrateApproved\<close> refuses the same item with \<open>ItemNotApproved\<close> and changes nothing.
\<close>

theorem integrate_ignores_status:
  "integrate I files now isoDate (it\<lparr>status := s\<rparr>) = integrate I files now isoDate it
   \<and> status (ex_item ''r2'' low 20 pending) = pending
   \<and> readFileSync ex_files ''atlas/relations.ts'' = Inr ''// BELOW''
   \<and> history (ex_integrator False []) = []
   \<and> (case integrate (ex_integrator False []) ex_files 50 ''2026'' (ex_item ''r2'' low 20 pending) of
        (r, I', files') \<Rightarrow>
          res_success r \<and> res_action r = modified_file \<and> res_error r = None
          \<and> readFileSync files' ''atlas/relations.ts''
               = Inr (''// BELOW'' @ nl @ ''export const RELATION_ORBITS = 1;'')
          \<and> map hist_reviewItemId (history I') = [''r2''])
   \<and> integrateApproved (ex_engine [(''r2'', ex_item ''r2'' low 20 pending)]) ex_files 50 ''2026'' ''r2''
       = (Inl (ItemNotApproved ''r2''), ex_engine [(''r2'', ex_item ''r2'' low 20 pending)], ex_files)"
proof -
  have a: "integrate I files now isoDate (it\<lparr>status := s\<rparr>) = integrate I files now isoDate it"
    by (cases "generatedCode it")
      (simp_all add: integrate_def failedResult_def Let_def split: prod.splits sum.splits)
  have b: "status (ex_item ''r2'' low 20 pending) = pending
   \<and> readFileSync ex_files ''atlas/relations.ts'' = Inr ''// BELOW''
   \<and> history (ex_integrator False []) = []
   \<and> (case integrate (ex_integrator False []) ex_files 50 ''2026'' (ex_item ''r2'' low 20 pending) of
        (r, I', files') \<Rightarrow>
          res_success r \<and> res_action r = modified_file \<and> res_error r = None
          \<and> readFileSync files' ''atlas/relations.ts''
               = Inr (''// BELOW'' @ nl @ ''export const RELATION_ORBITS = 1;'')
          \<and> map hist_reviewItemId (history I') = [''r2''])"
    by (simp add: run_defs)
  have c: "integrateApproved (ex_engine [(''r2'', ex_item ''r2'' low 20 pending)]) ex_files 50 ''2026'' ''r2''
       = (Inl (ItemNotApproved ''r2''), ex_engine [(''r2'', ex_item ''r2'' low 20 pending)], ex_files)"
    by (simp add: integrateApproved_def ex_engine_def ex_queue_def get_def ex_item_def)
  from a b c show ?thesis by (simp only: simp_thms)
qed

text \<open>
  The check of the status in the engine.  For an item of the queue whose status is neither
  \<open>approved\<close> nor \<open>modified\<close>, \<open>integrateApproved\<close> throws \<open>ItemNotApproved\<close> before the
  integrator is called: no file is written and the queue and the history stay as they were.
\<close>

theorem integrateApproved_requires_approval:
  assumes "get (reviewQueue E) i = Some it" "status it \<noteq> approved" "status it \<noteq> modified"
  shows "integrateApproved E files now isoDate i = (Inl (ItemNotApproved i), E, files)"
  using assms by (simp add: integrateApproved_def)

theorem integrateApproved_requires_approval_witness:
  "get (reviewQueue (ex_engine [(''r2'', ex_item ''r2'' low 20 pending)])) ''r2''
     = Some (ex_item ''r2'' low 20 pending)
   \<and> status (ex_item ''r2'' low 20 pending) \<noteq> approved
   \<and> status (ex_item ''r2'' low 20 pending) \<noteq> modified
   \<and> integrateApproved (ex_engine [(''r2'', ex_item ''r2'' low 20 pending)]) ex_files 50 ''2026'' ''r2''
       = (Inl (ItemNotApproved ''r2''), ex_engine [(''r2'', ex_item ''r2'' low 20 pending)], ex_files)"
proof -
  have a: "get (reviewQueue (ex_engine [(''r2'', ex_item ''r2'' low 20 pending)])) ''r2''
     = Some (ex_item ''r2'' low 20 pending)"
    by (simp add: ex_engine_def ex_queue_def get_def)
  have b: "status (ex_item ''r2'' low 20 pending) \<noteq> approved"
    "status (ex_item ''r2'' low 20 pending) \<noteq> modified"
    by (simp_all add: ex_item_def)
  from integrateApproved_requires_approval[OF a b, of ex_files 50 "''2026''"] a b
  show ?thesis by simp
qed

section \<open>Rollback\<close>









section \<open>Modify and approve\<close>






section \<open>Capacity of the queue\<close>

text \<open>
  C6.  The capacity policy is meant to hold for every method that adds a pending item.  In a
  queue with \<open>maxPending = 1\<close> that holds one pending item of low priority, \<open>addAxiomReview\<close>
  adds a second pending item and expires nothing, so two items are pending; \<open>addGapReview\<close> on
  the same queue expires the old low-priority item, as \<open>addCodeReview\<close> would.
\<close>

theorem addAxiomReview_ignores_capacity:
  "maxPending (rq_config ex_full) = 1
   \<and> map (\<lambda>it. (priority it, status it)) (fst (listPending ex_full 50)) = [(low, pending)]
   \<and> map (\<lambda>(k, it). (priority it, status it)) (items (snd (addAxiomReview ex_full 50 ex_gap)))
       = [(low, pending), (high, pending)]
   \<and> length (fst (listPending (snd (addAxiomReview ex_full 50 ex_gap)) 50)) = 2
   \<and> map (\<lambda>(k, it). (priority it, status it)) (items (snd (addGapReview ex_full 50 ex_gap)))
       = [(low, expired), (medium, pending)]"
  by (simp add: ex_full_def ex_queue_def ex_item_def ex_gap_def addAxiomReview_def addGapReview_def
        generateId_def enforceMaxPending_def listPending_def expireOldItems_def sort_by_def
        comparePending_def compareCreated_def priorityOrder_def expireItem_def Let_def
        show_int_def show_nat.simps digit_char_def)

lemma expireLoop_foldl:
  "expireLoop now n its m
     = foldl (\<lambda>m it. AList.update (item_id it) (expireItem now it) m) m (take (nat n) its)"
proof (induction its arbitrary: n m)
  case Nil
  then show ?case by simp
next
  case (Cons it rest)
  show ?case
  proof (cases "n \<le> 0")
    case True
    then show ?thesis by simp
  next
    case False
    then have "nat n = Suc (nat (n - 1))" by simp
    with False Cons[of "n - 1"] show ?thesis by simp
  qed
qed

lemma update_present:
  assumes "distinct (map fst m)" "(k, v) \<in> set m"
  shows "AList.update k w m = map (\<lambda>(k', x). (k', if k' = k then w else x)) m"
  using assms
proof (induction m)
  case Nil
  then show ?case by simp
next
  case (Cons a m)
  obtain k0 x0 where a: "a = (k0, x0)" by (cases a)
  show ?case
  proof (cases "k0 = k")
    case True
    then have "k \<notin> fst ` set m" using Cons.prems(1) a by simp
    then have "map (\<lambda>(k', x). (k', if k' = k then w else x)) m = m"
      by (induction m) force+
    with True a show ?thesis by simp
  next
    case False
    then have "(k, v) \<in> set m" using Cons.prems(2) a by auto
    with Cons a False show ?thesis by simp
  qed
qed

lemma foldl_expire_map:
  assumes "distinct (map fst m)" "\<forall>it \<in> set vs. (item_id it, it) \<in> set m" "distinct (map item_id vs)"
  shows "foldl (\<lambda>m it. AList.update (item_id it) (expireItem now it) m) m vs
         = map (\<lambda>(k, x). (k, if k \<in> item_id ` set vs then expireItem now x else x)) m"
  using assms
proof (induction vs arbitrary: m)
  case Nil
  then show ?case by simp
next
  case (Cons v vs)
  let ?m1 = "map (\<lambda>(k', x). (k', if k' = item_id v then expireItem now v else x)) m"
  have mem: "(item_id v, v) \<in> set m" using Cons.prems(2) by simp
  have u: "AList.update (item_id v) (expireItem now v) m = ?m1"
    using update_present[OF Cons.prems(1) mem] by simp
  have only: "x = v" if "(item_id v, x) \<in> set m" for x
    using Cons.prems(1) mem that by (meson eq_key_imp_eq_value)
  have d1: "distinct (map fst ?m1)"
    using Cons.prems(1) by (simp add: comp_def case_prod_beta)
  have m1: "\<forall>it \<in> set vs. (item_id it, it) \<in> set ?m1"
  proof
    fix it assume i: "it \<in> set vs"
    have "item_id v \<notin> item_id ` set vs" using Cons.prems(3) by simp
    with i have "item_id it \<noteq> item_id v" by (metis imageI)
    moreover have "(item_id it, it) \<in> set m" using Cons.prems(2) i by simp
    ultimately show "(item_id it, it) \<in> set ?m1" by force
  qed
  have d2: "distinct (map item_id vs)" using Cons.prems(3) by simp
  have "foldl (\<lambda>m it. AList.update (item_id it) (expireItem now it) m) m (v # vs)
        = foldl (\<lambda>m it. AList.update (item_id it) (expireItem now it) m) ?m1 vs"
    using u by simp
  also have "\<dots> = map (\<lambda>(k, x). (k, if k \<in> item_id ` set vs then expireItem now x else x)) ?m1"
    by (rule Cons.IH[OF d1 m1 d2])
  also have "\<dots> = map (\<lambda>(k, x). (k, if k \<in> item_id ` set (v # vs) then expireItem now x else x)) m"
  proof -
    have "(case (case e of (k', x) \<Rightarrow> (k', if k' = item_id v then expireItem now v else x)) of
            (k, x) \<Rightarrow> (k, if k \<in> item_id ` set vs then expireItem now x else x))
          = (case e of (k, x) \<Rightarrow> (k, if k \<in> item_id ` set (v # vs) then expireItem now x else x))"
      if "e \<in> set m" for e
    proof -
      obtain k x where e: "e = (k, x)" by (cases e)
      show ?thesis
      proof (cases "k = item_id v")
        case True
        then have "x = v" using only that e by simp
        moreover have "item_id v \<notin> item_id ` set vs" using Cons.prems(3) by simp
        ultimately show ?thesis using True e by simp
      next
        case False
        then show ?thesis using e by simp
      qed
    qed
    then show ?thesis by (simp cong: map_cong)
  qed
  finally show ?case .
qed


lemma distinct_map_sort_by: "distinct (map f xs) \<Longrightarrow> distinct (map f (sort_by c xs))"
proof -
  assume d: "distinct (map f xs)"
  have "mset (map f (sort_by c xs)) = mset (map f xs)"
    by (simp add: mset_sort_by)
  then show ?thesis using d mset_eq_imp_distinct_iff by blast
qed

lemma set_sort_by: "set (sort_by c xs) = set xs"
  using mset_sort_by[of c xs] by (metis set_mset_mset)

lemma wf_expireOldItems: "queue_wf q \<Longrightarrow> queue_wf (expireOldItems q now)"
  by (auto simp: queue_wf_def expireOldItems_def expireItem_def list_all_iff comp_def case_prod_beta
        distinct_map inj_on_def)

lemma wf_entry: "queue_wf q \<Longrightarrow> it \<in> set (map snd (items q)) \<Longrightarrow> (item_id it, it) \<in> set (items q)"
  by (auto simp: queue_wf_def list_all_iff)

lemma wf_distinct_ids: "queue_wf q \<Longrightarrow> distinct (map item_id (map snd (items q)))"
proof -
  assume w: "queue_wf q"
  then have eq: "map (item_id \<circ> snd) (items q) = map fst (items q)"
    by (auto simp: queue_wf_def list_all_iff)
  show ?thesis unfolding map_map eq using w by (simp add: queue_wf_def)
qed

lemma compareCreated_sorted: "sorted_wrt (\<lambda>a b. createdAt a \<le> createdAt b) (sort_by compareCreated xs)"
proof -
  have "sorted_wrt (\<lambda>a b. compareCreated a b \<le> 0) (sort_by compareCreated xs)"
    by (rule sorted_sort_by) (auto simp: compareCreated_def)
  then show ?thesis by (simp add: compareCreated_def)
qed

lemma enforce_items:
  assumes wf: "queue_wf q" and lp: "listPending q now = (pend, q')"
  shows "items (enforceMaxPending q now)
     = map (\<lambda>(k, it). (k, if k \<in> item_id ` set (take (nat (int (length pend) - maxPending (rq_config q)))
                              (sort_by compareCreated (filter (\<lambda>i. priority i = low) pend)))
                          then expireItem now it else it))
         (items q')"
proof -
  let ?lows = "sort_by compareCreated (filter (\<lambda>i. priority i = low) pend)"
  let ?ex = "int (length pend) - maxPending (rq_config q)"
  let ?vs = "take (nat ?ex) ?lows"
  have q': "q' = expireOldItems q now" using lp by (simp add: listPending_def Let_def)
  have cfg: "rq_config q' = rq_config q" by (simp add: q' expireOldItems_def)
  have pend: "pend = sort_by comparePending (filter (\<lambda>it. status it = pending) (map snd (items q')))"
    using lp by (auto simp: listPending_def Let_def)
  show ?thesis
  proof (cases "?ex > 0")
    case False
    then have same: "enforceMaxPending q now = q'"
      unfolding enforceMaxPending_def lp by (simp add: cfg)
    have n0: "nat ?ex = 0" using False by simp
    show ?thesis unfolding same n0 by (simp add: case_prod_beta)
  next
    case True
    have wf': "queue_wf q'" unfolding q' by (rule wf_expireOldItems[OF wf])
    have e: "items (enforceMaxPending q now) = expireLoop now ?ex ?lows (items q')"
      unfolding enforceMaxPending_def lp using True by (simp add: cfg Let_def)
    have sub: "set ?vs \<subseteq> set (map snd (items q'))"
    proof -
      have "set ?vs \<subseteq> set ?lows" by (rule set_take_subset)
      also have "\<dots> \<subseteq> set pend" by (simp add: set_sort_by)
      also have "\<dots> \<subseteq> set (map snd (items q'))" unfolding pend by (simp add: set_sort_by)
      finally show ?thesis .
    qed
    have mem: "\<forall>it \<in> set ?vs. (item_id it, it) \<in> set (items q')"
      using sub wf_entry[OF wf'] by blast
    have "distinct (map item_id pend)"
      unfolding pend
      by (intro distinct_map_sort_by distinct_map_filter wf_distinct_ids[OF wf'])
    then have "distinct (map item_id ?lows)"
      by (intro distinct_map_sort_by distinct_map_filter)
    then have dv: "distinct (map item_id ?vs)"
      by (simp add: take_map[symmetric] distinct_take)
    have d: "distinct (map fst (items q'))" using wf' by (simp add: queue_wf_def)
    show ?thesis
      unfolding e expireLoop_foldl by (rule foldl_expire_map[OF d mem dv])
  qed
qed


lemma wf_update:
  "queue_wf q \<Longrightarrow> queue_wf (q\<lparr>itemCounter := c, items := AList.update (item_id item) item (items q)\<rparr>)"
proof -
  assume w: "queue_wf q"
  have "list_all (\<lambda>(k, it). item_id it = k) (AList.update (item_id item) item m)"
    if "list_all (\<lambda>(k, it). item_id it = k) m" for m
    using that by (induction m) auto
  with w show ?thesis by (simp add: queue_wf_def distinct_update)
qed

text \<open>
  The capacity policy where it is enforced.  In a queue that satisfies the invariant,
  \<open>enforceMaxPending\<close> first sweeps the items whose deadline has passed and then marks as
  expired exactly the first \<open>e\<close> items of the pending low-priority items in ascending order of
  creation time, where \<open>e\<close> is the number of pending items above \<open>maxPending\<close> (none when
  the queue is within capacity, all of them when there are fewer than \<open>e\<close>); every other
  item is left as it is.  \<open>addCodeReview\<close> and \<open>addGapReview\<close> store the new pending item
  and run \<open>enforceMaxPending\<close> on the result, which satisfies the invariant again.
\<close>

theorem capacity_policy:
  assumes "queue_wf q" "listPending q now = (pend, q')"
  shows "items (enforceMaxPending q now)
           = map (\<lambda>(k, it). (k, if k \<in> item_id ` set (take (nat (int (length pend) - maxPending (rq_config q)))
                                    (sort_by compareCreated (filter (\<lambda>i. priority i = low) pend)))
                                then expireItem now it else it))
               (items q')
       \<and> mset (sort_by compareCreated (filter (\<lambda>i. priority i = low) pend))
           = mset (filter (\<lambda>i. priority i = low) pend)
       \<and> sorted_wrt (\<lambda>a b. createdAt a \<le> createdAt b)
           (sort_by compareCreated (filter (\<lambda>i. priority i = low) pend))
       \<and> (\<exists>item. status item = pending \<and> priority item = determinePriority gap v
             \<and> queue_wf (q\<lparr>itemCounter := Suc (itemCounter q),
                            items := AList.update (item_id item) item (items q)\<rparr>)
             \<and> snd (addCodeReview q now gap gen v)
                 = enforceMaxPending (q\<lparr>itemCounter := Suc (itemCounter q),
                                        items := AList.update (item_id item) item (items q)\<rparr>) now)
       \<and> (\<exists>item. status item = pending
             \<and> queue_wf (q\<lparr>itemCounter := Suc (itemCounter q),
                            items := AList.update (item_id item) item (items q)\<rparr>)
             \<and> snd (addGapReview q now gap)
                 = enforceMaxPending (q\<lparr>itemCounter := Suc (itemCounter q),
                                        items := AList.update (item_id item) item (items q)\<rparr>) now)"
proof (intro conjI)
  show "items (enforceMaxPending q now)
           = map (\<lambda>(k, it). (k, if k \<in> item_id ` set (take (nat (int (length pend) - maxPending (rq_config q)))
                                    (sort_by compareCreated (filter (\<lambda>i. priority i = low) pend)))
                                then expireItem now it else it))
               (items q')"
    by (rule enforce_items[OF assms])
  show "mset (sort_by compareCreated (filter (\<lambda>i. priority i = low) pend))
           = mset (filter (\<lambda>i. priority i = low) pend)"
    by (rule mset_sort_by)
  show "sorted_wrt (\<lambda>a b. createdAt a \<le> createdAt b)
           (sort_by compareCreated (filter (\<lambda>i. priority i = low) pend))"
    by (rule compareCreated_sorted)
  let ?i = "''review_'' @ show_int now @ ''_'' @ show_nat (itemCounter q + 1)"
  let ?c = "\<lparr> item_id = ?i, item_type = code_generation, status = pending, sourceGap = gap,
              generatedCode = Some gen, validation = Some v,
              createdAt = now, updatedAt = now, expiresAt = now + expirationTime (rq_config q),
              reviewer = None, reviewedAt = None, feedback = None,
              priority = determinePriority gap v \<rparr>"
  have "snd (addCodeReview q now gap gen v)
          = enforceMaxPending (q\<lparr>itemCounter := Suc (itemCounter q),
                                 items := AList.update (item_id ?c) ?c (items q)\<rparr>) now"
    by (simp add: addCodeReview_def generateId_def Let_def)
  then show "\<exists>item. status item = pending \<and> priority item = determinePriority gap v
             \<and> queue_wf (q\<lparr>itemCounter := Suc (itemCounter q),
                            items := AList.update (item_id item) item (items q)\<rparr>)
             \<and> snd (addCodeReview q now gap gen v)
                 = enforceMaxPending (q\<lparr>itemCounter := Suc (itemCounter q),
                                        items := AList.update (item_id item) item (items q)\<rparr>) now"
    using wf_update[OF assms(1), where c = "Suc (itemCounter q)" and item = ?c]
    by (intro exI[of _ ?c]) simp
  let ?g = "\<lparr> item_id = ?i, item_type = gap_detection, status = pending, sourceGap = gap,
              generatedCode = None, validation = None,
              createdAt = now, updatedAt = now, expiresAt = now + expirationTime (rq_config q),
              reviewer = None, reviewedAt = None, feedback = None,
              priority = (if gap_severity gap = critical then critical
                          else if gap_severity gap = high then high else medium) \<rparr>"
  have "snd (addGapReview q now gap)
          = enforceMaxPending (q\<lparr>itemCounter := Suc (itemCounter q),
                                 items := AList.update (item_id ?g) ?g (items q)\<rparr>) now"
    by (simp add: addGapReview_def generateId_def Let_def)
  then show "\<exists>item. status item = pending
             \<and> queue_wf (q\<lparr>itemCounter := Suc (itemCounter q),
                            items := AList.update (item_id item) item (items q)\<rparr>)
             \<and> snd (addGapReview q now gap)
                 = enforceMaxPending (q\<lparr>itemCounter := Suc (itemCounter q),
                                        items := AList.update (item_id item) item (items q)\<rparr>) now"
    using wf_update[OF assms(1), where c = "Suc (itemCounter q)" and item = ?g]
    by (intro exI[of _ ?g]) simp
qed

theorem capacity_policy_witness:
  "queue_wf ex_three
   \<and> map item_id (fst (listPending ex_three 50)) = [''r2'', ''r3'', ''r1'']
   \<and> map (\<lambda>(k, it). (k, status it)) (items (enforceMaxPending ex_three 50))
       = [(''r1'', pending), (''r2'', pending), (''r3'', expired), (''r4'', approved)]"
proof -
  have w: "queue_wf ex_three"
    by (simp add: queue_wf_def ex_three_def ex_queue_def ex_item_def)
  have l: "listPending ex_three 50
     = ([ex_item ''r2'' high 20 pending, ex_item ''r3'' low 10 pending, ex_item ''r1'' low 30 pending],
        ex_three)"
    by (simp add: listPending_def expireOldItems_def ex_three_def ex_queue_def ex_item_def sort_by_def
          comparePending_def priorityOrder_def Let_def)
  from capacity_policy[OF w l, where gap = ex_gap and gen = ex_code and v = "validate ex_code"]
  have "items (enforceMaxPending ex_three 50)
      = map (\<lambda>(k, it). (k, if k \<in> item_id ` set (take (nat (int (length
                 [ex_item ''r2'' high 20 pending, ex_item ''r3'' low 10 pending, ex_item ''r1'' low 30 pending])
                    - maxPending (rq_config ex_three)))
                 (sort_by compareCreated (filter (\<lambda>i. priority i = low)
                    [ex_item ''r2'' high 20 pending, ex_item ''r3'' low 10 pending, ex_item ''r1'' low 30 pending])))
              then expireItem 50 it else it)) (items ex_three)"
    by blast
  then have "map (\<lambda>(k, it). (k, status it)) (items (enforceMaxPending ex_three 50))
       = [(''r1'', pending), (''r2'', pending), (''r3'', expired), (''r4'', approved)]"
    by (simp add: ex_three_def ex_queue_def ex_item_def sort_by_def compareCreated_def expireItem_def)
  with w l show ?thesis by (simp add: ex_item_def)
qed

section \<open>Terminal statuses\<close>

lemma map_of_map_entries:
  "map_of (map (\<lambda>(k, x). (k, f k x)) m) i = map_option (f i) (map_of m i)"
  by (induction m) auto

lemma get_expireOldItems:
  "get q i = Some it \<Longrightarrow> status it \<noteq> pending \<Longrightarrow> get (expireOldItems q now) i = Some it"
proof -
  assume a: "get q i = Some it" "status it \<noteq> pending"
  have "items (expireOldItems q now)
      = map (\<lambda>(k, x). (k, (\<lambda>k it. if status it = pending \<and> expiresAt it < now
                                      then expireItem now it else it) k x)) (items q)"
    by (simp add: expireOldItems_def)
  then show ?thesis using a by (simp only: get_def map_of_map_entries) simp
qed

lemma get_enforceMaxPending:
  assumes wf: "queue_wf q" and g: "get q i = Some it" and s: "status it \<noteq> pending"
  shows "get (enforceMaxPending q now) i = Some it"
proof -
  let ?q' = "expireOldItems q now"
  obtain pend where lp: "listPending q now = (pend, ?q')"
    by (simp add: listPending_def Let_def)
  let ?vs = "take (nat (int (length pend) - maxPending (rq_config q)))
               (sort_by compareCreated (filter (\<lambda>i. priority i = low) pend))"
  have g': "get ?q' i = Some it" by (rule get_expireOldItems[OF g s])
  have wf': "queue_wf ?q'" by (rule wf_expireOldItems[OF wf])
  have pend: "pend = sort_by comparePending (filter (\<lambda>it. status it = pending) (map snd (items ?q')))"
    using lp by (auto simp: listPending_def Let_def)
  have notin: "i \<notin> item_id ` set ?vs"
  proof
    assume "i \<in> item_id ` set ?vs"
    then obtain v where v: "v \<in> set ?vs" "item_id v = i" by auto
    have "set ?vs \<subseteq> set (sort_by compareCreated (filter (\<lambda>i. priority i = low) pend))"
      by (rule set_take_subset)
    then have "v \<in> set pend" using v(1) by (auto simp: set_sort_by)
    then have vp: "v \<in> set (map snd (items ?q'))" "status v = pending"
      unfolding pend by (auto simp: set_sort_by)
    from wf_entry[OF wf' vp(1)] v(2) have "(i, v) \<in> set (items ?q')" by simp
    moreover have "distinct (map fst (items ?q'))" using wf' by (simp add: queue_wf_def)
    ultimately have "map_of (items ?q') i = Some v" by simp
    with g' have "v = it" by (simp add: get_def)
    with vp(2) s show False by simp
  qed
  have "items (enforceMaxPending q now)
      = map (\<lambda>(k, x). (k, (\<lambda>k it. if k \<in> item_id ` set ?vs then expireItem now it else it) k x))
          (items ?q')"
    using enforce_items[OF wf lp] by simp
  then show ?thesis using g' notin by (simp only: get_def map_of_map_entries) simp
qed

text \<open>
  No operation of the queue changes an item that has left \<open>pending\<close>.  In a queue that
  satisfies the invariant, an item whose status is not \<open>pending\<close> is stored unchanged after the
  expiry sweep, after \<open>listPending\<close>, after \<open>enforceMaxPending\<close>, after a decision on any id
  (its own included, which is refused) and after each of the three \<open>add\<close> methods, provided
  the id that the method generates is not the item's own.
\<close>

theorem terminal_status_stays:
  assumes "queue_wf q" "get q i = Some it" "status it \<noteq> pending"
  shows "get (expireOldItems q now) i = Some it
       \<and> get (snd (listPending q now)) i = Some it
       \<and> get (enforceMaxPending q now) i = Some it
       \<and> get (snd (approve q now j who nts)) i = Some it
       \<and> get (snd (reject q now j who rsn)) i = Some it
       \<and> get (snd (modifyAndApprove q now j who mods nts)) i = Some it
       \<and> (fst (generateId q now) \<noteq> i \<longrightarrow>
            get (snd (addCodeReview q now gap gen v)) i = Some it
            \<and> get (snd (addGapReview q now gap)) i = Some it
            \<and> get (snd (addAxiomReview q now gap)) i = Some it)"
proof (intro conjI impI)
  show e: "get (expireOldItems q now) i = Some it"
    by (rule get_expireOldItems[OF assms(2,3)])
  then show "get (snd (listPending q now)) i = Some it"
    by (simp add: listPending_def Let_def)
  show "get (enforceMaxPending q now) i = Some it"
    by (rule get_enforceMaxPending[OF assms])
  show "get (snd (approve q now j who nts)) i = Some it"
    using assms(2,3) by (auto simp: approve_def get_def Let_def update_conv' split: option.splits)
  show "get (snd (reject q now j who rsn)) i = Some it"
    using assms(2,3) by (auto simp: reject_def get_def Let_def update_conv' split: option.splits)
  show "get (snd (modifyAndApprove q now j who mods nts)) i = Some it"
    using assms(2,3) by (auto simp: modifyAndApprove_def get_def Let_def update_conv' split: option.splits)
next
  assume n: "fst (generateId q now) \<noteq> i"
  let ?i = "fst (generateId q now)"
  have u: "get (q\<lparr>itemCounter := c, items := AList.update (item_id item) item (items q)\<rparr>) i = Some it"
    if "item_id item = ?i" for c item
    using that n assms(2) by (simp add: get_def update_conv')
  have w: "queue_wf (q\<lparr>itemCounter := c, items := AList.update (item_id item) item (items q)\<rparr>)"
    for c item by (rule wf_update[OF assms(1)])
  let ?c = "\<lparr> item_id = ?i, item_type = code_generation, status = pending, sourceGap = gap,
              generatedCode = Some gen, validation = Some v,
              createdAt = now, updatedAt = now, expiresAt = now + expirationTime (rq_config q),
              reviewer = None, reviewedAt = None, feedback = None,
              priority = determinePriority gap v \<rparr>"
  have "snd (addCodeReview q now gap gen v)
          = enforceMaxPending (q\<lparr>itemCounter := Suc (itemCounter q),
                                 items := AList.update (item_id ?c) ?c (items q)\<rparr>) now"
    by (simp add: addCodeReview_def generateId_def Let_def)
  then show "get (snd (addCodeReview q now gap gen v)) i = Some it"
    using get_enforceMaxPending[OF w u assms(3), of ?c "Suc (itemCounter q)" now] by simp
  let ?g = "\<lparr> item_id = ?i, item_type = gap_detection, status = pending, sourceGap = gap,
              generatedCode = None, validation = None,
              createdAt = now, updatedAt = now, expiresAt = now + expirationTime (rq_config q),
              reviewer = None, reviewedAt = None, feedback = None,
              priority = (if gap_severity gap = critical then critical
                          else if gap_severity gap = high then high else medium) \<rparr>"
  have "snd (addGapReview q now gap)
          = enforceMaxPending (q\<lparr>itemCounter := Suc (itemCounter q),
                                 items := AList.update (item_id ?g) ?g (items q)\<rparr>) now"
    by (simp add: addGapReview_def generateId_def Let_def)
  then show "get (snd (addGapReview q now gap)) i = Some it"
    using get_enforceMaxPending[OF w u assms(3), of ?g "Suc (itemCounter q)" now] by simp
  show "get (snd (addAxiomReview q now gap)) i = Some it"
    using n assms(2) by (simp add: addAxiomReview_def generateId_def get_def Let_def update_conv')
qed


theorem terminal_status_stays_witness:
  "queue_wf ex_three
   \<and> get ex_three ''r4'' = Some (ex_item ''r4'' low 5 approved)
   \<and> status (ex_item ''r4'' low 5 approved) \<noteq> pending
   \<and> fst (generateId ex_three 50) \<noteq> ''r4''
   \<and> get (enforceMaxPending ex_three 50) ''r4'' = Some (ex_item ''r4'' low 5 approved)
   \<and> get (snd (approve ex_three 50 ''r1'' ''ada'' None)) ''r4'' = Some (ex_item ''r4'' low 5 approved)
   \<and> get (snd (approve ex_three 50 ''r4'' ''ada'' None)) ''r4'' = Some (ex_item ''r4'' low 5 approved)
   \<and> get (snd (addCodeReview ex_three 50 ex_gap ex_code (validate ex_code))) ''r4''
       = Some (ex_item ''r4'' low 5 approved)
   \<and> get (snd (addGapReview ex_three 50 ex_gap)) ''r4'' = Some (ex_item ''r4'' low 5 approved)
   \<and> get (snd (addAxiomReview ex_three 50 ex_gap)) ''r4'' = Some (ex_item ''r4'' low 5 approved)"
proof -
  have w: "queue_wf ex_three"
    by (simp add: queue_wf_def ex_three_def ex_queue_def ex_item_def)
  have g: "get ex_three ''r4'' = Some (ex_item ''r4'' low 5 approved)"
    by (simp add: get_def ex_three_def ex_queue_def)
  have s: "status (ex_item ''r4'' low 5 approved) \<noteq> pending"
    by (simp add: ex_item_def)
  have n: "fst (generateId ex_three 50) \<noteq> ''r4''"
    by (simp add: generateId_def Let_def)
  from terminal_status_stays[OF w g s, where now = 50 and j = "''r1''" and who = "''ada''" and nts = None
      and gap = ex_gap and gen = ex_code and v = "validate ex_code"]
    terminal_status_stays[OF w g s, where now = 50 and j = "''r4''" and who = "''ada''" and nts = None]
    w g s n
  show ?thesis by simp
qed

section \<open>Bounds of the validation score\<close>

lemma passed_le_total: "length (passed (validate g)) \<le> length (relevantAxioms g)"
  by (simp add: validate_def Let_def checkLoop_passed)

text \<open>The score of every validation result lies between 0 and 1.\<close>

theorem validate_score_bounds:
  "0 \<le> score (validate g) \<and> score (validate g) \<le> 1"
proof -
  let ?p = "length (passed (validate g))"
  let ?t = "length (relevantAxioms g)"
  let ?w = "length (filter warn_requiresReview (warnings (validate g)))"
  have t: "0 < ?t" using relevantAxioms_nonempty[of g] by simp
  have "(of_nat ?p :: rat) \<le> of_nat ?t" using passed_le_total[of g] by simp
  then have "(of_nat ?p :: rat) / of_nat ?t \<le> 1" using t by (simp add: divide_le_eq)
  moreover have "(0::rat) \<le> of_nat ?w * (1/10)" by simp
  ultimately have "(of_nat ?p :: rat) / of_nat ?t - of_nat ?w * (1/10) \<le> 1" by linarith
  moreover have "score (validate g) = max 0 (of_nat ?p / of_nat ?t - of_nat ?w * (1/10))"
    by (simp add: validate_def Let_def)
  ultimately show ?thesis by simp
qed

section \<open>Created and modified targets\<close>

text \<open>
  A successful integration outside dry-run mode reports what it did.  When the target did not
  exist the action is \<open>created\<close>, no backup is taken, and the target holds the wrapped code.
  When it existed the action is \<open>modified\<close>; with backups enabled the result names the backup
  path, and the file there holds the former content of the target (unless the backup path
  resolves to the target itself); with backups disabled there is no backup.
\<close>

theorem integrate_action:
  assumes "generatedCode it = Some g" "\<not> dryRun (int_config I)"
    "integrate I files now isoDate it = (r, I1, files1)" "res_success r"
  shows "(\<not> existsSync files (targetPathOf I (gen_targetFile g)) \<longrightarrow>
            res_action r = created \<and> res_backup r = None
            \<and> readFileSync files1 (targetPathOf I (gen_targetFile g)) = Inr (wrapNewFile g isoDate))
       \<and> (existsSync files (targetPathOf I (gen_targetFile g)) \<longrightarrow>
            res_action r = modified_file
            \<and> (createBackups (int_config I) \<longrightarrow>
                 res_backup r = Some (backupPathOf I now (gen_targetFile g) (gen_id g))
                 \<and> (fs_key (backupPathOf I now (gen_targetFile g) (gen_id g))
                       \<noteq> fs_key (targetPathOf I (gen_targetFile g)) \<longrightarrow>
                      readFileSync files1 (backupPathOf I now (gen_targetFile g) (gen_id g))
                        = readFileSync files (targetPathOf I (gen_targetFile g))))
            \<and> (\<not> createBackups (int_config I) \<longrightarrow> res_backup r = None))"
proof (intro conjI impI)
  let ?t = "targetPathOf I (gen_targetFile g)"
  let ?b = "backupPathOf I now (gen_targetFile g) (gen_id g)"
  {
    assume n: "\<not> existsSync files ?t"
    from integrate_success(2)[OF assms n]
    show "res_action r = created" "res_backup r = None"
      "readFileSync files1 ?t = Inr (wrapNewFile g isoDate)"
      by (simp_all add: read_ok)
  }
  assume e: "existsSync files ?t"
  from integrate_success(3)[OF assms e] obtain c where
    c: "stat files ?t = Some (File c)" "res_action r = modified_file"
    and b: "createBackups (int_config I) \<Longrightarrow>
              res_backup r = Some ?b
              \<and> files1 = (files(fs_key ?b \<mapsto> File c))
                           (fs_key ?t \<mapsto> File (applyInsertion c (gen_code g) (insertionPoint g)))"
    and nb: "\<not> createBackups (int_config I) \<Longrightarrow> res_backup r = None"
    by (auto split: if_splits)
  from c show "res_action r = modified_file" by simp
  {
    assume cb: "createBackups (int_config I)"
    from b[OF cb] show "res_backup r = Some ?b" by simp
    assume ne: "fs_key ?b \<noteq> fs_key ?t"
    obtain f where cbk: "createBackup I files now ?t (gen_id g) = (Inr ?b, f)"
    proof -
      have fr: "res_backup (failedResult it g e now) = None" for e by (simp add: failedResult_def)
      from assms cb e b[OF cb] fr
      have "\<exists>f. createBackup I files now ?t (gen_id g) = (Inr ?b, f)"
        by (auto simp: integrate_def Let_def targetPathOf_def[symmetric] failedResult_def
              split: prod.splits sum.splits if_splits)
      then show ?thesis using that by blast
    qed
    from createBackup_ok(3)[OF cbk] c
    have "stat (files(fs_key ?b \<mapsto> File c)) ?b = Some (File c)" by auto
    then have "stat files1 ?b = Some (File c)"
      using b[OF cb] ne by (simp add: stat_upd_other)
    then show "readFileSync files1 ?b = readFileSync files ?t"
      using c by (simp add: readFileSync_def)
  }
  {
    assume "\<not> createBackups (int_config I)"
    from nb[OF this] show "res_backup r = None" .
  }
qed

theorem integrate_action_witness:
  "generatedCode (ex_item ''r1'' high 10 approved) = Some ex_code
   \<and> \<not> dryRun (int_config (ex_integrator False []))
   \<and> createBackups (int_config (ex_integrator False []))
   \<and> existsSync ex_files (targetPathOf (ex_integrator False []) (gen_targetFile ex_code))
   \<and> res_success (fst (integrate (ex_integrator False []) ex_files 50 ''2026''
                          (ex_item ''r1'' high 10 approved)))
   \<and> res_action (fst (integrate (ex_integrator False []) ex_files 50 ''2026''
                          (ex_item ''r1'' high 10 approved))) = modified_file
   \<and> res_backup (fst (integrate (ex_integrator False []) ex_files 50 ''2026''
                          (ex_item ''r1'' high 10 approved)))
       = Some ''atlas/bak/relations.ts.50.gen_relation_1_1.bak''
   \<and> readFileSync (snd (snd (integrate (ex_integrator False []) ex_files 50 ''2026''
                                 (ex_item ''r1'' high 10 approved))))
         ''atlas/bak/relations.ts.50.gen_relation_1_1.bak'' = Inr ''// BELOW''"
proof -
  let ?I = "ex_integrator False []"
  let ?it = "ex_item ''r1'' high 10 approved"
  let ?r = "integrate ?I ex_files 50 ''2026'' ?it"
  let ?b = "''atlas/bak/relations.ts.50.gen_relation_1_1.bak''"
  have h: "generatedCode ?it = Some ex_code" "\<not> dryRun (int_config ?I)"
    "createBackups (int_config ?I)"
    by (simp_all add: ex_item_def ex_integrator_def)
  have p: "targetPathOf ?I (gen_targetFile ex_code) = ''atlas/relations.ts''"
    "backupPathOf ?I 50 (gen_targetFile ex_code) (gen_id ex_code) = ?b"
    "fs_key ?b \<noteq> fs_key ''atlas/relations.ts''"
    "existsSync ex_files ''atlas/relations.ts''"
    "readFileSync ex_files ''atlas/relations.ts'' = Inr ''// BELOW''"
    by (simp_all add: run_defs backupPathOf_def)
  have ok: "res_success (fst ?r)" by (simp add: run_defs)
  have int: "?r = (fst ?r, fst (snd ?r), snd (snd ?r))" by simp
  from integrate_action[OF h(1,2) int ok] h p ok
  show ?thesis by simp
qed

text \<open>
  The effect of the integrator's constructor on the file system: with backups enabled the
  backup directory is created below the base directory, together with the base directory
  when that is missing, also in dry-run mode.
\<close>

theorem constructor_creates_backup_dir:
  "Integrator_init \<lparr> baseDir = ''atlas'', createBackups = True, backupDir = ''.atlas-backups'',
                     dryRun = False \<rparr> [''atlas'' \<mapsto> Dir]
     = Inr [''atlas'' \<mapsto> Dir, ''atlas/.atlas-backups'' \<mapsto> Dir]
   \<and> Integrator_init \<lparr> baseDir = ''atlas'', createBackups = True, backupDir = ''.atlas-backups'',
                       dryRun = True \<rparr> Map.empty
     = Inr [''atlas'' \<mapsto> Dir, ''atlas/.atlas-backups'' \<mapsto> Dir]
   \<and> Integrator_init \<lparr> baseDir = ''atlas'', createBackups = True, backupDir = ''.atlas-backups'',
                       dryRun = False \<rparr> [''atlas'' \<mapsto> File ''x'']
     = Inl (ENOTDIR ''atlas/.atlas-backups'')"
  by (simp add: Integrator_init_def run_defs mkdirSync_def)

end
